theory Spec2Isabelle
  imports Main
begin

section \<open>Values of the request body\<close>

text \<open>
  The attendance wire format carries an integer student id and textual date, status and
  notes. A field that is absent from the JSON body (or \<^verbatim>\<open>null\<close>) is \<open>None\<close>.
  JavaScript's \<^verbatim>\<open>!x\<close> holds for an absent field, for the number \<^verbatim>\<open>0\<close> and for the
  empty string.
\<close>

type_synonym timestamp = string

definition truthy_num :: "int option \<Rightarrow> bool" where
  "truthy_num v = (case v of None \<Rightarrow> False | Some n \<Rightarrow> n \<noteq> 0)"

definition truthy_str :: "string option \<Rightarrow> bool" where
  "truthy_str v = (case v of None \<Rightarrow> False | Some s \<Rightarrow> s \<noteq> [])"

text \<open>The expression \<^verbatim>\<open>notes || null\<close>.\<close>

definition or_null :: "string option \<Rightarrow> string option" where
  "or_null v = (if truthy_str v then v else None)"

record att_item =
  student_id :: "int option"
  date :: "string option"
  status :: "string option"
  notes_field :: "string option"

text \<open>
  An element of an array body is an object or \<^verbatim>\<open>null\<close>; destructuring \<^verbatim>\<open>null\<close>
  throws a \<^verbatim>\<open>TypeError\<close>. (A number, string or boolean element destructures to four
  absent fields and is the object with every field \<open>None\<close>.)
\<close>

datatype body_item = Null_item | Object_item att_item

datatype attendance_body = Single att_item | Array "body_item list"

section \<open>The persistence layer (db/database.js)\<close>

text \<open>
  The tables \<^verbatim>\<open>users\<close>, \<^verbatim>\<open>students\<close> and \<^verbatim>\<open>attendance\<close> of \<^verbatim>\<open>createTables\<close>;
  of a student the columns the attendance controller reads. \<^verbatim>\<open>attendance.id\<close> is
  \<^verbatim>\<open>INTEGER PRIMARY KEY AUTOINCREMENT\<close>: the table remembers the largest id it ever gave
  out (\<open>attendance_seq\<close>). Foreign keys are enforced (\<^verbatim>\<open>PRAGMA foreign_keys = ON\<close>).
\<close>

record student_row =
  stu_id :: int
  stu_class_id :: "int option"
  stu_status :: "string option"

record att_row =
  att_id :: int
  att_student_id :: int
  att_date :: string
  att_status :: string
  att_notes :: "string option"
  att_recorded_by :: "int option"
  att_created_at :: timestamp
  att_updated_at :: timestamp

record user_row =
  usr_id :: int
  usr_username :: string
  usr_email :: string
  usr_password_hash :: string
  usr_role :: string
  usr_full_name :: string
  usr_created_at :: timestamp
  usr_updated_at :: timestamp

record database =
  users :: "user_row list"
  students :: "student_row list"
  attendance :: "att_row list"
  attendance_seq :: int

datatype db_error = UniqueFailed | ForeignKeyFailed

fun db_error_message :: "db_error \<Rightarrow> string" where
  "db_error_message UniqueFailed =
     ''SQLITE_CONSTRAINT: UNIQUE constraint failed: attendance.student_id, attendance.date''"
| "db_error_message ForeignKeyFailed = ''SQLITE_CONSTRAINT: FOREIGN KEY constraint failed''"

text \<open>
  A date is kept as the text that was bound to the statement, and two dates are the same
  when their texts are. The column \<^verbatim>\<open>date DATE\<close> has numeric affinity, so SQLite stores and
  compares a text that reads as a number by its value (\<^verbatim>\<open>'20240105'\<close> and
  \<^verbatim>\<open>'020240105'\<close> are one value); a date in the wire format \<^verbatim>\<open>YYYY-MM-DD\<close> does not
  read as a number and is stored and compared as its text. What a submission finds in the
  table is therefore stated for dates in the wire format.
\<close>

definition is_digit :: "char \<Rightarrow> bool" where
  "is_digit c \<longleftrightarrow> c \<in> set ''0123456789''"

definition wire_date :: "string \<Rightarrow> bool" where
  "wire_date d \<longleftrightarrow>
     length d = 10 \<and> d ! 4 = CHR ''-'' \<and> d ! 7 = CHR ''-'' \<and>
     list_all is_digit (take 4 d @ take 2 (drop 5 d) @ drop 8 d)"

definition att_key :: "att_row \<Rightarrow> int \<times> string" where
  "att_key r = (att_student_id r, att_date r)"

text \<open>\<^verbatim>\<open>SELECT id FROM attendance WHERE student_id = ? AND date = ?\<close> through
  \<^verbatim>\<open>selectOneQuery\<close>: the first matching row, or null.\<close>

definition select_attendance_id :: "database \<Rightarrow> int \<Rightarrow> string \<Rightarrow> int option" where
  "select_attendance_id db sid d =
     map_option att_id (find (\<lambda>r. att_key r = (sid, d)) (attendance db))"

text \<open>\<^verbatim>\<open>UPDATE attendance SET status = ?, notes = ?, updated_at = CURRENT_TIMESTAMP
  WHERE student_id = ? AND date = ?\<close>.\<close>

definition set_status_notes :: "timestamp \<Rightarrow> string \<Rightarrow> string option \<Rightarrow> att_row \<Rightarrow> att_row" where
  "set_status_notes now st nt r = r\<lparr>att_status := st, att_notes := nt, att_updated_at := now\<rparr>"

definition update_attendance ::
  "timestamp \<Rightarrow> database \<Rightarrow> string \<Rightarrow> string option \<Rightarrow> int \<Rightarrow> string \<Rightarrow> database" where
  "update_attendance now db st nt sid d =
     db\<lparr>attendance :=
          map (\<lambda>r. if att_key r = (sid, d) then set_status_notes now st nt r else r)
            (attendance db)\<rparr>"

text \<open>The next AUTOINCREMENT id: one more than the largest id in the table or ever given out.\<close>

definition next_attendance_id :: "database \<Rightarrow> int" where
  "next_attendance_id db = fold max (map att_id (attendance db)) (attendance_seq db) + 1"

definition new_attendance_row ::
  "timestamp \<Rightarrow> database \<Rightarrow> int \<Rightarrow> string \<Rightarrow> string \<Rightarrow> string option \<Rightarrow> att_row" where
  "new_attendance_row now db sid d st nt =
     \<lparr>att_id = next_attendance_id db, att_student_id = sid, att_date = d, att_status = st,
      att_notes = nt, att_recorded_by = None, att_created_at = now, att_updated_at = now\<rparr>"

text \<open>\<^verbatim>\<open>INSERT INTO attendance (student_id, date, status, notes) VALUES (?, ?, ?, ?)\<close>
  through \<^verbatim>\<open>executeQuery\<close>: rejected by \<^verbatim>\<open>UNIQUE(student_id, date)\<close> or by
  \<^verbatim>\<open>FOREIGN KEY (student_id) REFERENCES students (id)\<close>, otherwise the new row and
  \<^verbatim>\<open>this.lastID\<close>.\<close>

definition insert_attendance ::
  "timestamp \<Rightarrow> database \<Rightarrow> int \<Rightarrow> string \<Rightarrow> string \<Rightarrow> string option \<Rightarrow> db_error + (database \<times> int)" where
  "insert_attendance now db sid d st nt =
     (if (sid, d) \<in> set (map att_key (attendance db)) then Inl UniqueFailed
      else if sid \<notin> set (map stu_id (students db)) then Inl ForeignKeyFailed
      else Inr (db\<lparr>attendance := attendance db @ [new_attendance_row now db sid d st nt],
                   attendance_seq := next_attendance_id db\<rparr>,
                next_attendance_id db))"

section \<open>Recording attendance (controllers/attendanceController.js)\<close>

datatype att_action = Created | Updated

datatype item_result =
    Item_ok att_action int att_item
  | Item_failed string att_item

fun is_success :: "item_result \<Rightarrow> bool" where
  "is_success (Item_ok _ _ _) = True"
| "is_success (Item_failed _ _) = False"

record summary =
  total :: nat
  successful :: nat
  failed :: nat

fun digit_char :: "nat \<Rightarrow> char" where
  "digit_char n = char_of (48 + n)"

fun string_of_nat :: "nat \<Rightarrow> string" where
  "string_of_nat n =
     (if n < 10 then [digit_char n] else string_of_nat (n div 10) @ [digit_char (n mod 10)])"

text \<open>A response: the HTTP status with either the result envelope
  \<^verbatim>\<open>{success: true, message, results, summary}\<close> or the error envelope
  \<^verbatim>\<open>{success: false, error, message?}\<close>.\<close>

datatype 'r response =
    Results nat string "'r list" summary
  | Error_response nat string "string option"

fun http_status :: "'r response \<Rightarrow> nat" where
  "http_status (Results c _ _ _) = c"
| "http_status (Error_response c _ _) = c"

text \<open>The body of the loop of \<^verbatim>\<open>recordAttendance\<close>, for one object of the body.\<close>

definition missing_fields :: "att_item \<Rightarrow> bool" where
  "missing_fields it \<longleftrightarrow>
     \<not> truthy_num (student_id it) \<or> \<not> truthy_str (date it) \<or> \<not> truthy_str (status it)"

definition missing_message :: string where
  "missing_message = ''Missing required fields: student_id, date, status''"

definition record_item :: "timestamp \<Rightarrow> database \<Rightarrow> att_item \<Rightarrow> database \<times> item_result" where
  "record_item now db it =
     (case (student_id it, date it, status it) of
        (Some sid, Some d, Some st) \<Rightarrow>
          if missing_fields it then (db, Item_failed missing_message it)
          else (case select_attendance_id db sid d of
                  Some existing \<Rightarrow>
                    (update_attendance now db st (or_null (notes_field it)) sid d,
                     Item_ok Updated existing it)
                | None \<Rightarrow>
                    (case insert_attendance now db sid d st (or_null (notes_field it)) of
                       Inr (db', new_id) \<Rightarrow> (db', Item_ok Created new_id it)
                     | Inl recordError \<Rightarrow> (db, Item_failed (db_error_message recordError) it)))
      | _ \<Rightarrow> (db, Item_failed missing_message it))"

definition type_error_message :: string where
  "type_error_message = ''Cannot destructure property student_id of record as it is null.''"

fun record_loop ::
  "timestamp \<Rightarrow> database \<Rightarrow> body_item list \<Rightarrow> item_result list
     \<Rightarrow> database \<times> (string + item_result list)" where
  "record_loop now db [] results = (db, Inr results)"
| "record_loop now db (Null_item # records) results = (db, Inl type_error_message)"
| "record_loop now db (Object_item it # records) results =
     (case record_item now db it of
        (db', r) \<Rightarrow> record_loop now db' records (results @ [r]))"

definition summarise :: "('r \<Rightarrow> bool) \<Rightarrow> 'r list \<Rightarrow> summary" where
  "summarise ok results =
     \<lparr>total = length results,
      successful = length (filter ok results),
      failed = length (filter (\<lambda>r. \<not> ok r) results)\<rparr>"

definition count_message :: "string \<Rightarrow> summary \<Rightarrow> string" where
  "count_message prefix s =
     prefix @ string_of_nat (successful s) @ '' successful, '' @ string_of_nat (failed s) @ '' failed''"

definition recordAttendance ::
  "timestamp \<Rightarrow> database \<Rightarrow> attendance_body \<Rightarrow> database \<times> item_result response" where
  "recordAttendance now db attendanceData =
     (let records = (case attendanceData of Array xs \<Rightarrow> xs | Single it \<Rightarrow> [Object_item it])
      in case record_loop now db records [] of
           (db', Inr results) \<Rightarrow>
             (db', Results 200 (count_message ''Attendance recorded: '' (summarise is_success results))
                     results (summarise is_success results))
         | (db', Inl msg) \<Rightarrow>
             (db', Error_response 500 ''Failed to record attendance'' (Some msg)))"

definition bulkRecordAttendance ::
  "timestamp \<Rightarrow> database \<Rightarrow> attendance_body \<Rightarrow> database \<times> item_result response" where
  "bulkRecordAttendance now db attendanceData = recordAttendance now db attendanceData"

text \<open>Every request of a sequence is one call of \<^verbatim>\<open>recordAttendance\<close>, at its own time.\<close>

fun run_upserts :: "database \<Rightarrow> (timestamp \<times> attendance_body) list \<Rightarrow> database" where
  "run_upserts db [] = db"
| "run_upserts db ((now, body) # rest) = run_upserts (fst (recordAttendance now db body)) rest"

text \<open>The constraint \<^verbatim>\<open>UNIQUE(student_id, date)\<close> as a property of a table, and the
  records of one student on one day.\<close>

definition unique_key :: "database \<Rightarrow> bool" where
  "unique_key db \<longleftrightarrow> distinct (map att_key (attendance db))"

definition records_for :: "database \<Rightarrow> int \<Rightarrow> string \<Rightarrow> att_row list" where
  "records_for db sid d = filter (\<lambda>r. att_key r = (sid, d)) (attendance db)"

text \<open>A status and notes are stored for a student and day: there is a record for the pair,
  and every record for it carries them.\<close>

definition stored :: "database \<Rightarrow> int \<Rightarrow> string \<Rightarrow> string \<Rightarrow> string option \<Rightarrow> bool" where
  "stored db sid d st nt \<longleftrightarrow>
     records_for db sid d \<noteq> [] \<and>
     (\<forall>r \<in> set (records_for db sid d). att_status r = st \<and> att_notes r = nt)"

subsection \<open>Mark all present\<close>

record mark_body =
  class_id :: "int option"
  mark_date :: "string option"
  mark_notes :: "string option"

datatype mark_result =
    Mark_ok att_action int "int option"
  | Mark_failed string int

fun mark_success :: "mark_result \<Rightarrow> bool" where
  "mark_success (Mark_ok _ _ _) = True"
| "mark_success (Mark_failed _ _) = False"

text \<open>The \<^verbatim>\<open>student_id\<close> property of a result.\<close>

fun mark_student_id :: "mark_result \<Rightarrow> int" where
  "mark_student_id (Mark_ok _ sid _) = sid"
| "mark_student_id (Mark_failed _ sid) = sid"

text \<open>\<^verbatim>\<open>SELECT id FROM students WHERE class_id = ? AND status = "active"\<close>.\<close>

definition select_active_students :: "database \<Rightarrow> int \<Rightarrow> int list" where
  "select_active_students db cid =
     map stu_id
       (filter (\<lambda>s. stu_class_id s = Some cid \<and> stu_status s = Some ''active'') (students db))"

definition mark_student ::
  "timestamp \<Rightarrow> database \<Rightarrow> string \<Rightarrow> string option \<Rightarrow> int \<Rightarrow> database \<times> mark_result" where
  "mark_student now db d nt sid =
     (case select_attendance_id db sid d of
        Some existing \<Rightarrow>
          (update_attendance now db ''present'' (or_null nt) sid d, Mark_ok Updated sid None)
      | None \<Rightarrow>
          (case insert_attendance now db sid d ''present'' (or_null nt) of
             Inr (db', new_id) \<Rightarrow> (db', Mark_ok Created sid (Some new_id))
           | Inl recordError \<Rightarrow> (db, Mark_failed (db_error_message recordError) sid)))"

fun mark_loop ::
  "timestamp \<Rightarrow> database \<Rightarrow> string \<Rightarrow> string option \<Rightarrow> int list \<Rightarrow> mark_result list
     \<Rightarrow> database \<times> mark_result list" where
  "mark_loop now db d nt [] results = (db, results)"
| "mark_loop now db d nt (sid # rest) results =
     (case mark_student now db d nt sid of
        (db', r) \<Rightarrow> mark_loop now db' d nt rest (results @ [r]))"

definition markAllPresent ::
  "timestamp \<Rightarrow> database \<Rightarrow> mark_body \<Rightarrow> database \<times> mark_result response" where
  "markAllPresent now db body =
     (case (class_id body, mark_date body) of
        (Some cid, Some d) \<Rightarrow>
          if \<not> truthy_num (class_id body) \<or> \<not> truthy_str (mark_date body)
          then (db, Error_response 400 ''class_id and date are required'' None)
          else let studs = select_active_students db cid in
            if length studs = 0
            then (db, Error_response 404 ''No active students found in this class'' None)
            else (case mark_loop now db d (mark_notes body) studs [] of
                    (db', results) \<Rightarrow>
                      (db', Results 200
                              (count_message ''Marked all present: '' (summarise mark_success results))
                              results (summarise mark_success results)))
      | _ \<Rightarrow> (db, Error_response 400 ''class_id and date are required'' None))"

section \<open>Tokens (middleware/auth.js)\<close>

text \<open>
  A JavaScript value read from a row or a session; an absent property (\<^verbatim>\<open>undefined\<close>)
  is \<open>None\<close>. An object is the map from its property names to their values.
\<close>

datatype jsval = JNull | JNum int | JStr string

type_synonym js_object = "string \<Rightarrow> jsval option"

definition truthy :: "jsval option \<Rightarrow> bool" where
  "truthy v =
     (case v of None \<Rightarrow> False | Some JNull \<Rightarrow> False | Some (JNum n) \<Rightarrow> n \<noteq> 0
      | Some (JStr s) \<Rightarrow> s \<noteq> [])"

text \<open>
  Modelled from the spec: the library behind \<^verbatim>\<open>jwt.sign\<close> and \<^verbatim>\<open>jwt.verify\<close> is not
  part of the sources. A token string is either not a well-formed token, or it carries a
  payload (the claims, the time of issue and the expiry, in seconds) signed with a key;
  \<open>issue\<close> embeds the claims and an expiry, \<open>verify\<close> fails with the invalid-token error
  when the structure is malformed or the signature does not match the secret, and with the
  expired-token error when the time has reached the embedded expiry.
\<close>

record jwt_payload =
  jwt_claims :: js_object
  jwt_iat :: nat
  jwt_exp :: nat

datatype token = Malformed string | Jwt jwt_payload string

datatype jwt_error = JsonWebTokenError | TokenExpiredError

text \<open>Modelled from the spec: \<^verbatim>\<open>jwt.sign\<close> (not in the sources) embeds the claims, the
  time of issue and the expiry \<^verbatim>\<open>expiresIn\<close> seconds later, signed with the secret.\<close>

definition jwt_sign :: "js_object \<Rightarrow> string \<Rightarrow> nat \<Rightarrow> nat \<Rightarrow> token" where
  "jwt_sign claims secret expiresIn now =
     Jwt \<lparr>jwt_claims = claims, jwt_iat = now, jwt_exp = now + expiresIn\<rparr> secret"

text \<open>Modelled from the spec: \<^verbatim>\<open>jwt.verify\<close> (not in the sources) fails with the
  invalid-token error on a malformed token or a signature that does not match the secret,
  then with the expired-token error when the time has reached the embedded expiry, and
  otherwise gives the payload.\<close>

definition jwt_verify :: "token \<Rightarrow> string \<Rightarrow> nat \<Rightarrow> jwt_error + jwt_payload" where
  "jwt_verify t secret now =
     (case t of
        Malformed _ \<Rightarrow> Inl JsonWebTokenError
      | Jwt p key \<Rightarrow>
          if key \<noteq> secret then Inl JsonWebTokenError
          else if jwt_exp p \<le> now then Inl TokenExpiredError
          else Inr p)"

text \<open>The empty string is the only token string that is falsy.\<close>

definition token_truthy :: "token option \<Rightarrow> bool" where
  "token_truthy t = (case t of None \<Rightarrow> False | Some (Malformed s) \<Rightarrow> s \<noteq> [] | Some (Jwt _ _) \<Rightarrow> True)"

text \<open>The rows of \<^verbatim>\<open>users\<close> as objects: \<^verbatim>\<open>SELECT *\<close> gives every column, a column
  list gives those columns.\<close>

definition user_columns :: "user_row \<Rightarrow> js_object" where
  "user_columns u =
     [''id'' \<mapsto> JNum (usr_id u), ''username'' \<mapsto> JStr (usr_username u),
      ''email'' \<mapsto> JStr (usr_email u), ''password_hash'' \<mapsto> JStr (usr_password_hash u),
      ''role'' \<mapsto> JStr (usr_role u), ''full_name'' \<mapsto> JStr (usr_full_name u),
      ''created_at'' \<mapsto> JStr (usr_created_at u), ''updated_at'' \<mapsto> JStr (usr_updated_at u)]"

definition select_columns :: "string list \<Rightarrow> user_row \<Rightarrow> js_object" where
  "select_columns cols u = (\<lambda>k. if k \<in> set cols then user_columns u k else None)"

text \<open>\<^verbatim>\<open>SELECT id, username, email, role, full_name, created_at FROM users WHERE id = ?\<close>.\<close>

definition select_user_by_id :: "database \<Rightarrow> jsval option \<Rightarrow> js_object option" where
  "select_user_by_id db uid =
     map_option
       (select_columns [''id'', ''username'', ''email'', ''role'', ''full_name'', ''created_at''])
       (find (\<lambda>u. uid = Some (JNum (usr_id u))) (users db))"

text \<open>\<^verbatim>\<open>SELECT * FROM users WHERE username = ? OR email = ?\<close>.\<close>

definition select_user_by_login :: "database \<Rightarrow> string \<Rightarrow> js_object option" where
  "select_user_by_login db name =
     map_option user_columns (find (\<lambda>u. usr_username u = name \<or> usr_email u = name) (users db))"

record session =
  ses_userId :: "jsval option"
  ses_username :: "jsval option"
  ses_role :: "jsval option"

datatype auth_header = Bearer token | Other_header string

record request =
  authorization :: "auth_header option"
  session :: "session option"
  user :: "js_object option"
  userId :: "jsval option"

datatype outcome = Rejected nat string | Next request

text \<open>An object literal of three properties; a property whose value is \<^verbatim>\<open>undefined\<close>
  is not serialised into the token.\<close>

definition claims_object :: "jsval option \<Rightarrow> jsval option \<Rightarrow> jsval option \<Rightarrow> js_object" where
  "claims_object uid uname rl =
     (\<lambda>k. if k = ''userId'' then uid else if k = ''username'' then uname
          else if k = ''role'' then rl else None)"

definition generateToken :: "string \<Rightarrow> nat \<Rightarrow> js_object \<Rightarrow> token" where
  "generateToken secret now u =
     jwt_sign (claims_object (u ''id'') (u ''username'') (u ''role'')) secret 86400 now"

text \<open>The temporary token of the session fallback in \<^verbatim>\<open>authenticateToken\<close>.\<close>

definition session_token :: "string \<Rightarrow> nat \<Rightarrow> session \<Rightarrow> token" where
  "session_token secret now s =
     jwt_sign (claims_object (ses_userId s) (ses_username s) None) secret 3600 now"

text \<open>The payload a token string carries, if it is a well-formed token.\<close>

fun jwt_decode :: "token \<Rightarrow> jwt_payload option" where
  "jwt_decode (Jwt p _) = Some p"
| "jwt_decode (Malformed _) = None"

text \<open>A claim of the payload of a token string; absent on a malformed token.\<close>

fun token_claim :: "token \<Rightarrow> string \<Rightarrow> jsval option" where
  "token_claim (Jwt p _) k = jwt_claims p k"
| "token_claim (Malformed _) k = None"

definition verifyToken :: "string \<Rightarrow> nat \<Rightarrow> token \<Rightarrow> jwt_error + jwt_payload" where
  "verifyToken secret now t = jwt_verify t secret now"

definition authenticateToken :: "string \<Rightarrow> nat \<Rightarrow> database \<Rightarrow> request \<Rightarrow> outcome" where
  "authenticateToken secret now db req =
     (let bearer = (case authorization req of Some (Bearer t) \<Rightarrow> Some t | _ \<Rightarrow> None);
          tok = (case session req of
                   Some s \<Rightarrow>
                     if \<not> token_truthy bearer \<and> truthy (ses_userId s)
                     then Some (session_token secret now s) else bearer
                 | None \<Rightarrow> bearer)
      in case tok of
           None \<Rightarrow> Rejected 401 ''Access denied. No token provided.''
         | Some t \<Rightarrow>
             if \<not> token_truthy tok then Rejected 401 ''Access denied. No token provided.''
             else (case jwt_verify t secret now of
                     Inr decoded \<Rightarrow>
                       (case select_user_by_id db (jwt_claims decoded ''userId'') of
                          None \<Rightarrow> Rejected 401 ''Invalid token. User not found.''
                        | Some u \<Rightarrow> Next (req\<lparr>user := Some u, userId := u ''id''\<rparr>))
                   | Inl JsonWebTokenError \<Rightarrow> Rejected 401 ''Invalid token.''
                   | Inl TokenExpiredError \<Rightarrow> Rejected 401 ''Token expired. Please login again.''))"

definition requireAdmin :: "request \<Rightarrow> outcome" where
  "requireAdmin req =
     (case user req of
        None \<Rightarrow> Rejected 401 ''Authentication required.''
      | Some u \<Rightarrow>
          if u ''role'' \<noteq> Some (JStr ''admin'') then Rejected 403 ''Admin access required.''
          else Next req)"

definition requireTeacher :: "request \<Rightarrow> outcome" where
  "requireTeacher req =
     (case user req of
        None \<Rightarrow> Rejected 401 ''Authentication required.''
      | Some u \<Rightarrow>
          if u ''role'' \<notin> {Some (JStr ''teacher''), Some (JStr ''admin'')}
          then Rejected 403 ''Teacher access required.''
          else Next req)"

section \<open>Login and profile (controllers/authController.js)\<close>

record login_body =
  username :: "string option"
  password :: "string option"

datatype auth_response =
    Login_ok js_object token
  | Profile_ok js_object
  | Auth_error nat string

text \<open>\<^verbatim>\<open>const { password_hash, ...userProfile } = user\<close>.\<close>

definition without_password_hash :: "js_object \<Rightarrow> js_object" where
  "without_password_hash u = u(''password_hash'' := None)"

text \<open>\<open>compare\<close> is \<^verbatim>\<open>bcrypt.compare\<close>, of a library outside the sources.\<close>

definition login ::
  "(string \<Rightarrow> jsval option \<Rightarrow> bool) \<Rightarrow> string \<Rightarrow> nat \<Rightarrow> database \<Rightarrow> request \<Rightarrow> login_body
     \<Rightarrow> request \<times> auth_response" where
  "login compare secret now db req body =
     (case (username body, password body) of
        (Some name, Some pw) \<Rightarrow>
          if \<not> truthy_str (username body) \<or> \<not> truthy_str (password body)
          then (req, Auth_error 400 ''Username and password are required'')
          else (case select_user_by_login db name of
                  None \<Rightarrow> (req, Auth_error 401 ''Invalid username or password'')
                | Some u \<Rightarrow>
                    if \<not> compare pw (u ''password_hash'')
                    then (req, Auth_error 401 ''Invalid username or password'')
                    else (case session req of
                            None \<Rightarrow> (req, Auth_error 500 ''Login failed'')
                          | Some s \<Rightarrow>
                              (req\<lparr>session := Some (s\<lparr>ses_userId := u ''id'',
                                                      ses_username := u ''username'',
                                                      ses_role := u ''role''\<rparr>)\<rparr>,
                               Login_ok (without_password_hash u) (generateToken secret now u))))
      | _ \<Rightarrow> (req, Auth_error 400 ''Username and password are required''))"

definition getProfile :: "request \<Rightarrow> auth_response" where
  "getProfile req =
     (case user req of
        None \<Rightarrow> Auth_error 500 ''Failed to retrieve profile''
      | Some u \<Rightarrow> Profile_ok (without_password_hash u))"

section \<open>A small school\<close>

text \<open>An administrator and a teacher; two students of class 1, one of them already marked
  absent on 5 January. In the examples a password hash is the password reversed.\<close>

definition example_admin_row :: user_row where
  "example_admin_row =
     \<lparr>usr_id = 1, usr_username = ''admin'', usr_email = ''admin@school-os.local'',
      usr_password_hash = ''nimda'', usr_role = ''admin'',
      usr_full_name = ''System Administrator'',
      usr_created_at = ''2024-01-01 00:00:00'',
      usr_updated_at = ''2024-01-01 00:00:00''\<rparr>"

definition example_teacher_row :: user_row where
  "example_teacher_row =
     \<lparr>usr_id = 2, usr_username = ''ada'', usr_email = ''ada@school-os.local'',
      usr_password_hash = ''terces'', usr_role = ''teacher'',
      usr_full_name = ''Ada Obi'',
      usr_created_at = ''2024-01-02 00:00:00'',
      usr_updated_at = ''2024-01-02 00:00:00''\<rparr>"

definition example_db :: database where
  "example_db =
     \<lparr>users = [example_admin_row, example_teacher_row],
      students = [\<lparr>stu_id = 1, stu_class_id = Some 1, stu_status = Some ''active''\<rparr>,
                  \<lparr>stu_id = 2, stu_class_id = Some 1, stu_status = Some ''active''\<rparr>],
      attendance = [\<lparr>att_id = 1, att_student_id = 1, att_date = ''2024-01-05'',
                     att_status = ''absent'', att_notes = Some ''ill'', att_recorded_by = None,
                     att_created_at = ''2024-01-05 08:00:00'',
                     att_updated_at = ''2024-01-05 08:00:00''\<rparr>],
      attendance_seq = 1\<rparr>"

text \<open>The two users as the authentication middleware loads them.\<close>

definition example_admin :: js_object where
  "example_admin =
     select_columns [''id'', ''username'', ''email'', ''role'', ''full_name'', ''created_at'']
       example_admin_row"

definition example_teacher :: js_object where
  "example_teacher =
     select_columns [''id'', ''username'', ''email'', ''role'', ''full_name'', ''created_at'']
       example_teacher_row"

text \<open>The same school with two more students, one of class 1 who has left and one of
  class 2 who was late on 5 January.\<close>

definition example_school :: database where
  "example_school =
     \<lparr>users = [example_admin_row, example_teacher_row],
      students = [\<lparr>stu_id = 1, stu_class_id = Some 1, stu_status = Some ''active''\<rparr>,
                  \<lparr>stu_id = 2, stu_class_id = Some 1, stu_status = Some ''active''\<rparr>,
                  \<lparr>stu_id = 3, stu_class_id = Some 1, stu_status = Some ''inactive''\<rparr>,
                  \<lparr>stu_id = 4, stu_class_id = Some 2, stu_status = Some ''active''\<rparr>],
      attendance = [\<lparr>att_id = 1, att_student_id = 1, att_date = ''2024-01-05'',
                     att_status = ''absent'', att_notes = Some ''ill'', att_recorded_by = None,
                     att_created_at = ''2024-01-05 08:00:00'',
                     att_updated_at = ''2024-01-05 08:00:00''\<rparr>,
                    \<lparr>att_id = 2, att_student_id = 4, att_date = ''2024-01-05'',
                     att_status = ''late'', att_notes = None, att_recorded_by = None,
                     att_created_at = ''2024-01-05 08:10:00'',
                     att_updated_at = ''2024-01-05 08:10:00''\<rparr>],
      attendance_seq = 2\<rparr>"

definition example_item :: "int \<Rightarrow> string \<Rightarrow> att_item" where
  "example_item sid st =
     \<lparr>student_id = Some sid, date = Some ''2024-01-05'', status = Some st, notes_field = None\<rparr>"

definition example_compare :: "string \<Rightarrow> jsval option \<Rightarrow> bool" where
  "example_compare pw h \<longleftrightarrow> h = Some (JStr (rev pw))"

definition example_session :: session where
  "example_session =
     \<lparr>ses_userId = Some (JNum 1), ses_username = Some (JStr ''admin''),
      ses_role = Some (JStr ''admin'')\<rparr>"

definition example_login :: login_body where
  "example_login = \<lparr>username = Some ''admin'', password = Some ''admin''\<rparr>"

definition example_request :: "auth_header option \<Rightarrow> session option \<Rightarrow> request" where
  "example_request h s = \<lparr>authorization = h, session = s, user = None, userId = None\<rparr>"

definition example_bad_item :: att_item where
  "example_bad_item =
     \<lparr>student_id = Some 1, date = None, status = Some ''present'', notes_field = None\<rparr>"

definition example_mark_body :: mark_body where
  "example_mark_body = \<lparr>class_id = Some 1, mark_date = Some ''2024-01-05'', mark_notes = None\<rparr>"

section \<open>Properties of the statements\<close>

lemma find_key_None: "find (\<lambda>r. att_key r = k) rs = None \<longleftrightarrow> k \<notin> set (map att_key rs)"
  by (induction rs) auto

lemma select_None_iff:
  "select_attendance_id db sid d = None \<longleftrightarrow> (sid, d) \<notin> set (map att_key (attendance db))"
  by (simp add: select_attendance_id_def find_key_None del: set_map)

lemma select_Some_row:
  "select_attendance_id db sid d = Some i \<Longrightarrow>
     \<exists>r \<in> set (attendance db). att_key r = (sid, d) \<and> att_id r = i"
  by (auto simp: select_attendance_id_def find_Some_iff)

lemma att_key_set_status_notes [simp]: "att_key (set_status_notes now st nt r) = att_key r"
  by (simp add: att_key_def set_status_notes_def)

lemma att_id_set_status_notes [simp]: "att_id (set_status_notes now st nt r) = att_id r"
  by (simp add: set_status_notes_def)

lemma keys_update_attendance [simp]:
  "map att_key (attendance (update_attendance now db st nt sid d)) = map att_key (attendance db)"
  by (simp add: update_attendance_def)

lemma ids_update_attendance [simp]:
  "map att_id (attendance (update_attendance now db st nt sid d)) = map att_id (attendance db)"
  by (simp add: update_attendance_def)

lemma students_update_attendance [simp]:
  "students (update_attendance now db st nt sid d) = students db"
  by (simp add: update_attendance_def)

lemma fold_max_ge: "(a::int) \<le> fold max xs a \<and> (\<forall>x \<in> set xs. x \<le> fold max xs a)"
proof (induction xs arbitrary: a)
  case Nil
  show ?case by simp
next
  case (Cons y ys)
  have "max y a \<le> fold max ys (max y a)" using Cons.IH by blast
  moreover have "\<forall>x \<in> set ys. x \<le> fold max ys (max y a)" using Cons.IH by blast
  ultimately show ?case by auto
qed

lemma next_attendance_id_fresh:
  "r \<in> set (attendance db) \<Longrightarrow> att_id r < next_attendance_id db"
  using fold_max_ge [of "attendance_seq db" "map att_id (attendance db)"]
  by (auto simp: next_attendance_id_def)

lemma next_attendance_id_seq: "attendance_seq db < next_attendance_id db"
  using fold_max_ge [of "attendance_seq db" "map att_id (attendance db)"]
  by (auto simp: next_attendance_id_def)

lemma insert_attendance_Inr:
  "(sid, d) \<notin> set (map att_key (attendance db)) \<Longrightarrow> sid \<in> set (map stu_id (students db)) \<Longrightarrow>
   insert_attendance now db sid d st nt =
     Inr (db\<lparr>attendance := attendance db @ [new_attendance_row now db sid d st nt],
             attendance_seq := next_attendance_id db\<rparr>, next_attendance_id db)"
  by (simp add: insert_attendance_def)

lemma insert_attendance_keys:
  "insert_attendance now db sid d st nt = Inr (db', i) \<Longrightarrow>
     map att_key (attendance db') = map att_key (attendance db) @ [(sid, d)] \<and>
     (sid, d) \<notin> set (map att_key (attendance db)) \<and> students db' = students db"
  by (auto simp: insert_attendance_def new_attendance_row_def att_key_def split: if_splits)

lemma record_item_valid:
  assumes "student_id it = Some sid" "date it = Some d" "status it = Some st"
    and "sid \<noteq> 0" "d \<noteq> []" "st \<noteq> []"
  shows "record_item now db it =
     (case select_attendance_id db sid d of
        Some existing \<Rightarrow>
          (update_attendance now db st (or_null (notes_field it)) sid d, Item_ok Updated existing it)
      | None \<Rightarrow>
          (case insert_attendance now db sid d st (or_null (notes_field it)) of
             Inr (db', new_id) \<Rightarrow> (db', Item_ok Created new_id it)
           | Inl recordError \<Rightarrow> (db, Item_failed (db_error_message recordError) it)))"
  using assms by (simp add: record_item_def missing_fields_def truthy_num_def truthy_str_def)

lemma record_item_missing:
  "missing_fields it \<Longrightarrow> record_item now db it = (db, Item_failed missing_message it)"
  by (simp add: record_item_def split: option.splits)

lemma unique_key_record_item:
  "unique_key db \<Longrightarrow> unique_key (fst (record_item now db it))"
  by (auto simp: record_item_def unique_key_def dest!: insert_attendance_keys
      split: option.splits sum.splits if_splits)

lemma students_record_item: "students (fst (record_item now db it)) = students db"
  by (auto simp: record_item_def dest!: insert_attendance_keys
      split: option.splits sum.splits if_splits)

lemma unique_key_record_loop:
  "unique_key db \<Longrightarrow> unique_key (fst (record_loop now db records results))"
proof (induction records arbitrary: db results)
  case Nil
  then show ?case by simp
next
  case (Cons x xs)
  show ?case
  proof (cases x)
    case Null_item
    then show ?thesis using Cons.prems by simp
  next
    case (Object_item it)
    obtain db' r where ri: "record_item now db it = (db', r)" by (cases "record_item now db it")
    have "unique_key db'" using unique_key_record_item [OF Cons.prems, of now it] ri by simp
    then show ?thesis using Cons.IH Object_item ri by simp
  qed
qed

lemma fst_recordAttendance:
  "fst (recordAttendance now db body) =
     fst (record_loop now db (case body of Array xs \<Rightarrow> xs | Single it \<Rightarrow> [Object_item it]) [])"
  by (simp add: recordAttendance_def Let_def split: prod.splits sum.splits)

lemma unique_key_recordAttendance:
  "unique_key db \<Longrightarrow> unique_key (fst (recordAttendance now db body))"
  by (simp add: fst_recordAttendance unique_key_record_loop)

lemma unique_key_run_upserts: "unique_key db \<Longrightarrow> unique_key (run_upserts db reqs)"
  by (induction db reqs rule: run_upserts.induct) (simp_all add: unique_key_recordAttendance)

lemma distinct_map_filter_le1:
  "distinct (map f xs) \<Longrightarrow> length (filter (\<lambda>x. f x = k) xs) \<le> 1"
proof (induction xs)
  case Nil
  show ?case by simp
next
  case (Cons a xs)
  show ?case
  proof (cases "f a = k")
    case True
    have "f a \<notin> f ` set xs" using Cons.prems by simp
    then have "\<forall>x \<in> set xs. f x \<noteq> k"
      using True by (metis imageI)
    then have "filter (\<lambda>x. f x = k) xs = []"
      by (simp add: filter_empty_conv)
    then show ?thesis using True by simp
  next
    case False
    then show ?thesis using Cons by simp
  qed
qed

lemma unique_key_records_for: "unique_key db \<Longrightarrow> length (records_for db sid d) \<le> 1"
  unfolding unique_key_def records_for_def by (rule distinct_map_filter_le1)


lemma find_filter_conv:
  "find P xs = (case filter P xs of [] \<Rightarrow> None | x # _ \<Rightarrow> Some x)"
  by (induction xs) auto

lemma select_records_for:
  "select_attendance_id db sid d =
     (case records_for db sid d of [] \<Rightarrow> None | r # _ \<Rightarrow> Some (att_id r))"
  by (simp add: select_attendance_id_def records_for_def find_filter_conv split: list.splits)

lemma records_for_update:
  "records_for (update_attendance now db st nt sid d) sid' d' =
     (if (sid', d') = (sid, d) then map (set_status_notes now st nt) (records_for db sid d)
      else records_for db sid' d')"
proof -
  have "filter (\<lambda>r. att_key r = k) (map (\<lambda>r. if att_key r = k0 then set_status_notes now st nt r else r) rs)
      = (if k = k0 then map (set_status_notes now st nt) (filter (\<lambda>r. att_key r = k0) rs)
         else filter (\<lambda>r. att_key r = k) rs)" for k k0 rs
    by (induction rs) auto
  then show ?thesis
    by (simp add: records_for_def update_attendance_def)
qed

lemma records_for_empty:
  "(sid, d) \<notin> set (map att_key (attendance db)) \<Longrightarrow> records_for db sid d = []"
  by (auto simp: records_for_def filter_empty_conv image_iff)

lemma records_for_insert:
  assumes "insert_attendance now db sid d st nt = Inr (db', i)"
  shows "records_for db' sid' d' =
     (if (sid', d') = (sid, d) then [new_attendance_row now db sid d st nt]
      else records_for db sid' d')"
    and "i = next_attendance_id db"
proof -
  have fresh: "(sid, d) \<notin> set (map att_key (attendance db))"
    and db': "db' = db\<lparr>attendance := attendance db @ [new_attendance_row now db sid d st nt],
                attendance_seq := next_attendance_id db\<rparr>"
    and i: "i = next_attendance_id db"
    using assms by (auto simp: insert_attendance_def split: if_splits)
  have k: "att_key (new_attendance_row now db sid d st nt) = (sid, d)"
    by (simp add: att_key_def new_attendance_row_def)
  show "i = next_attendance_id db" by (rule i)
  show "records_for db' sid' d' =
     (if (sid', d') = (sid, d) then [new_attendance_row now db sid d st nt]
      else records_for db sid' d')"
    using records_for_empty [OF fresh] k by (auto simp: db' records_for_def)
qed

section \<open>The attendance upsert\<close>

lemma record_item_existing:
  assumes "student_id it = Some sid" "date it = Some d" "status it = Some st"
    and "sid \<noteq> 0" "d \<noteq> []" "st \<noteq> []"
    and "select_attendance_id db sid d = Some existing"
  shows "record_item now db it =
     (update_attendance now db st (or_null (notes_field it)) sid d, Item_ok Updated existing it)"
  using assms by (simp add: record_item_valid)

lemma record_item_new:
  assumes "student_id it = Some sid" "date it = Some d" "status it = Some st"
    and "sid \<noteq> 0" "d \<noteq> []" "st \<noteq> []"
    and "select_attendance_id db sid d = None" "sid \<in> set (map stu_id (students db))"
  shows "record_item now db it =
     (db\<lparr>attendance := attendance db @ [new_attendance_row now db sid d st (or_null (notes_field it))],
         attendance_seq := next_attendance_id db\<rparr>,
      Item_ok Created (next_attendance_id db) it)"
proof -
  have "(sid, d) \<notin> set (map att_key (attendance db))"
    using assms(7) select_None_iff by blast
  then show ?thesis
    using assms by (simp add: record_item_valid insert_attendance_Inr del: set_map)
qed

lemma recordAttendance_Single:
  "recordAttendance now db (Single it) =
     (fst (record_item now db it),
      Results 200
        (count_message ''Attendance recorded: '' (summarise is_success [snd (record_item now db it)]))
        [snd (record_item now db it)] (summarise is_success [snd (record_item now db it)]))"
  by (simp add: recordAttendance_def split: prod.splits)

lemma wire_date_nonempty: "wire_date d \<Longrightarrow> d \<noteq> []"
  by (auto simp: wire_date_def)

lemma wire_date_example: "wire_date ''2024-01-05''"
  by (simp add: wire_date_def is_digit_def)

text \<open>
  Claim C1, as the code has it. A submission with its three required fields, the date in
  the wire format, first asks whether a record for the student and date exists. If one exists, the status and notes of
  that record are updated in place and the result is \<open>updated\<close> with the id of the existing
  record. If none exists, the insert is issued: for a student of the \<^verbatim>\<open>students\<close> table
  it stores a new record and the result is \<open>created\<close> with the newly generated id, which no
  earlier record has; for a student id the \<^verbatim>\<open>students\<close> table does not have, the foreign
  key rejects the insert, nothing is stored and the item is reported as failed. Whatever
  the requests of a sequence are, a table with at most one record per student and date has
  at most one record per student and date afterwards.
\<close>

theorem recordAttendance_upsert_unique:
  assumes "student_id it = Some sid" "date it = Some d" "status it = Some st"
    and "sid \<noteq> 0" "wire_date d" "st \<noteq> []"
  shows
    "(\<forall>existing. select_attendance_id db sid d = Some existing \<longrightarrow>
        record_item now db it =
          (update_attendance now db st (or_null (notes_field it)) sid d,
           Item_ok Updated existing it) \<and>
        (\<exists>r \<in> set (attendance db). att_key r = (sid, d) \<and> att_id r = existing)) \<and>
     (select_attendance_id db sid d = None \<and> sid \<in> set (map stu_id (students db)) \<longrightarrow>
        record_item now db it =
          (db\<lparr>attendance :=
                attendance db @ [new_attendance_row now db sid d st (or_null (notes_field it))],
              attendance_seq := next_attendance_id db\<rparr>,
           Item_ok Created (next_attendance_id db) it) \<and>
        (\<forall>r \<in> set (attendance db). att_id r \<noteq> next_attendance_id db)) \<and>
     (select_attendance_id db sid d = None \<and> sid \<notin> set (map stu_id (students db)) \<longrightarrow>
        record_item now db it = (db, Item_failed (db_error_message ForeignKeyFailed) it)) \<and>
     (unique_key db \<longrightarrow>
        unique_key (run_upserts db reqs) \<and>
        (\<forall>sid' d'. length (records_for (run_upserts db reqs) sid' d') \<le> 1))"
proof -
  have d: "d \<noteq> []" using assms(5) by (rule wire_date_nonempty)
  note valid = assms(1-4) d assms(6)
  show ?thesis
  proof (intro conjI allI impI)
  fix existing assume e: "select_attendance_id db sid d = Some existing"
  show "record_item now db it =
          (update_attendance now db st (or_null (notes_field it)) sid d,
           Item_ok Updated existing it)"
    using valid e by (rule record_item_existing)
  show "\<exists>r \<in> set (attendance db). att_key r = (sid, d) \<and> att_id r = existing"
    using e by (rule select_Some_row)
next
  assume n: "select_attendance_id db sid d = None \<and> sid \<in> set (map stu_id (students db))"
  show "record_item now db it =
          (db\<lparr>attendance :=
                attendance db @ [new_attendance_row now db sid d st (or_null (notes_field it))],
              attendance_seq := next_attendance_id db\<rparr>,
           Item_ok Created (next_attendance_id db) it)"
    using valid n by (intro record_item_new) simp_all
  show "\<forall>r \<in> set (attendance db). att_id r \<noteq> next_attendance_id db"
    using next_attendance_id_fresh [of _ db] by fastforce
next
  assume n: "select_attendance_id db sid d = None \<and> sid \<notin> set (map stu_id (students db))"
  then have "(sid, d) \<notin> set (map att_key (attendance db))"
    using select_None_iff by blast
  then have "insert_attendance now db sid d st (or_null (notes_field it)) = Inl ForeignKeyFailed"
    using n by (simp add: insert_attendance_def del: set_map)
  then show "record_item now db it = (db, Item_failed (db_error_message ForeignKeyFailed) it)"
    using valid n by (simp add: record_item_valid)
next
  assume u: "unique_key db"
  show "unique_key (run_upserts db reqs)" using u by (rule unique_key_run_upserts)
  fix sid' d'
  show "length (records_for (run_upserts db reqs) sid' d') \<le> 1"
    using unique_key_run_upserts [OF u] by (rule unique_key_records_for)
  qed
qed

lemmas example_simps =
  example_db_def example_item_def select_attendance_id_def att_key_def update_attendance_def
  set_status_notes_def or_null_def truthy_str_def truthy_num_def next_attendance_id_def
  new_attendance_row_def unique_key_def records_for_def

theorem recordAttendance_upsert_unique_witness:
  "record_item ''2024-01-05 09:00:00'' example_db (example_item 1 ''present'') =
     (example_db\<lparr>attendance :=
        [\<lparr>att_id = 1, att_student_id = 1, att_date = ''2024-01-05'',
          att_status = ''present'', att_notes = None, att_recorded_by = None,
          att_created_at = ''2024-01-05 08:00:00'',
          att_updated_at = ''2024-01-05 09:00:00''\<rparr>]\<rparr>,
      Item_ok Updated 1 (example_item 1 ''present'')) \<and>
   snd (record_item ''2024-01-05 09:00:00'' example_db (example_item 2 ''late'')) =
      Item_ok Created 2 (example_item 2 ''late'') \<and>
   length (records_for
      (run_upserts example_db
         [(''2024-01-05 09:00:00'', Single (example_item 1 ''present'')),
          (''2024-01-05 09:01:00'', Single (example_item 1 ''late''))]) 1 ''2024-01-05'') \<le> 1"
proof -
  have a: "select_attendance_id example_db 1 ''2024-01-05'' = Some 1"
    by (simp add: example_simps)
  have b: "select_attendance_id example_db 2 ''2024-01-05'' = None \<and>
           2 \<in> set (map stu_id (students example_db))"
    by (simp add: example_simps)
  have u: "unique_key example_db"
    by (simp add: example_simps)
  have f1: "student_id (example_item 1 ''present'') = Some 1"
           "date (example_item 1 ''present'') = Some ''2024-01-05''"
           "status (example_item 1 ''present'') = Some ''present''"
    by (simp_all add: example_item_def)
  have f2: "student_id (example_item 2 ''late'') = Some 2"
           "date (example_item 2 ''late'') = Some ''2024-01-05''"
           "status (example_item 2 ''late'') = Some ''late''"
    by (simp_all add: example_item_def)
  have nz: "(1::int) \<noteq> 0" "(2::int) \<noteq> 0" "''2024-01-05'' \<noteq> []" "''present'' \<noteq> []"
    "''late'' \<noteq> []"
    by simp_all
  note t1 = recordAttendance_upsert_unique [OF f1 nz(1) wire_date_example nz(4), of example_db "''2024-01-05 09:00:00''"
      "[(''2024-01-05 09:00:00'', Single (example_item 1 ''present'')),
        (''2024-01-05 09:01:00'', Single (example_item 1 ''late''))]"]
  note t2 = recordAttendance_upsert_unique [OF f2 nz(2) wire_date_example nz(5), of example_db "''2024-01-05 09:00:00''" "[]"]
  have c1: "record_item ''2024-01-05 09:00:00'' example_db (example_item 1 ''present'') =
      (update_attendance ''2024-01-05 09:00:00'' example_db ''present''
         (or_null (notes_field (example_item 1 ''present''))) 1 ''2024-01-05'',
       Item_ok Updated 1 (example_item 1 ''present''))"
    using t1 a by simp
  have c2: "snd (record_item ''2024-01-05 09:00:00'' example_db (example_item 2 ''late'')) =
      Item_ok Created (next_attendance_id example_db) (example_item 2 ''late'')"
    using t2 b by simp
  have c3: "length (records_for
      (run_upserts example_db
         [(''2024-01-05 09:00:00'', Single (example_item 1 ''present'')),
          (''2024-01-05 09:01:00'', Single (example_item 1 ''late''))]) 1 ''2024-01-05'') \<le> 1"
    using t1 u by blast
  have n: "next_attendance_id example_db = 2"
    by (simp add: example_simps)
  show ?thesis
    using c1 c2 c3 n by (simp add: example_simps)
qed

theorem recordAttendance_unknown_student_not_created:
  "select_attendance_id example_db 3 ''2024-01-05'' = None \<and>
   recordAttendance ''2024-01-05 09:00:00'' example_db (Single (example_item 3 ''present'')) =
     (example_db,
      Results 200 ''Attendance recorded: 0 successful, 1 failed''
        [Item_failed ''SQLITE_CONSTRAINT: FOREIGN KEY constraint failed''
           (example_item 3 ''present'')]
        \<lparr>total = 1, successful = 0, failed = 1\<rparr>)"
proof -
  have c: "count_message ''Attendance recorded: '' \<lparr>total = 1, successful = 0, failed = 1\<rparr> =
      ''Attendance recorded: 0 successful, 1 failed''"
    by code_simp
  have s: "select_attendance_id example_db 3 ''2024-01-05'' = None"
    by (simp add: example_simps)
  have r: "record_item ''2024-01-05 09:00:00'' example_db (example_item 3 ''present'') =
      (example_db,
       Item_failed ''SQLITE_CONSTRAINT: FOREIGN KEY constraint failed'' (example_item 3 ''present''))"
    by (simp add: record_item_def missing_fields_def insert_attendance_def example_simps)
  have sm: "summarise is_success
      [Item_failed ''SQLITE_CONSTRAINT: FOREIGN KEY constraint failed'' (example_item 3 ''present'')] =
      \<lparr>total = 1, successful = 0, failed = 1\<rparr>"
    by (simp add: summarise_def)
  have "recordAttendance ''2024-01-05 09:00:00'' example_db (Single (example_item 3 ''present'')) =
     (example_db,
      Results 200 ''Attendance recorded: 0 successful, 1 failed''
        [Item_failed ''SQLITE_CONSTRAINT: FOREIGN KEY constraint failed''
           (example_item 3 ''present'')]
        \<lparr>total = 1, successful = 0, failed = 1\<rparr>)"
    by (simp only: recordAttendance_Single r fst_conv snd_conv sm c)
  then show ?thesis
    using s by (rule conjI [rotated])
qed

lemma example_item_fields:
  "student_id (example_item sid st) = Some sid"
  "date (example_item sid st) = Some ''2024-01-05''"
  "status (example_item sid st) = Some st"
  "notes_field (example_item sid st) = None"
  by (simp_all add: example_item_def)

lemma example_enrolled: "2 \<in> set (map stu_id (students example_db))"
  by (simp add: example_db_def)

lemma example_unique: "unique_key example_db"
  by (simp add: example_simps)

section \<open>Batches and single submissions\<close>

lemma select_Some_records_for:
  "select_attendance_id db sid d = Some e \<Longrightarrow> records_for db sid d \<noteq> []"
  by (auto simp: select_records_for)

lemma stored_update:
  assumes "select_attendance_id db sid d = Some e"
  shows "stored (update_attendance now db st nt sid d) sid d st nt"
  using select_Some_records_for [OF assms]
  by (auto simp: stored_def records_for_update set_status_notes_def)

lemma stored_insert:
  assumes "insert_attendance now db sid d st nt = Inr (db', i)"
  shows "stored db' sid d st nt"
  using records_for_insert(1) [OF assms, of sid d]
  by (simp add: stored_def new_attendance_row_def)

lemma record_item_stored:
  assumes "student_id it = Some sid" "date it = Some d" "status it = Some st"
    and "sid \<noteq> 0" "d \<noteq> []" "st \<noteq> []"
    and "sid \<in> set (map stu_id (students db)) \<or> select_attendance_id db sid d \<noteq> None"
  shows "stored (fst (record_item now db it)) sid d st (or_null (notes_field it))"
    and "\<exists>a i. snd (record_item now db it) = Item_ok a i it"
proof -
  show "stored (fst (record_item now db it)) sid d st (or_null (notes_field it))"
  proof (cases "select_attendance_id db sid d")
    case None
    then have "sid \<in> set (map stu_id (students db))" using assms(7) by simp
    then have "record_item now db it =
       (db\<lparr>attendance := attendance db @ [new_attendance_row now db sid d st (or_null (notes_field it))],
           attendance_seq := next_attendance_id db\<rparr>,
        Item_ok Created (next_attendance_id db) it)"
      using assms None by (intro record_item_new) simp_all
    moreover have "insert_attendance now db sid d st (or_null (notes_field it)) =
       Inr (db\<lparr>attendance := attendance db @ [new_attendance_row now db sid d st (or_null (notes_field it))],
           attendance_seq := next_attendance_id db\<rparr>, next_attendance_id db)"
      using None \<open>sid \<in> set (map stu_id (students db))\<close> select_None_iff
      by (intro insert_attendance_Inr) blast+
    ultimately show ?thesis using stored_insert by simp
  next
    case (Some e)
    then show ?thesis
      using assms stored_update [OF Some] by (simp add: record_item_existing)
  qed
  show "\<exists>a i. snd (record_item now db it) = Item_ok a i it"
  proof (cases "select_attendance_id db sid d")
    case None
    then have "sid \<in> set (map stu_id (students db))" using assms(7) by simp
    then have "record_item now db it =
       (db\<lparr>attendance := attendance db @ [new_attendance_row now db sid d st (or_null (notes_field it))],
           attendance_seq := next_attendance_id db\<rparr>,
        Item_ok Created (next_attendance_id db) it)"
      using assms None by (intro record_item_new) simp_all
    then show ?thesis by simp
  next
    case (Some e)
    then show ?thesis using assms by (simp add: record_item_existing)
  qed
qed

lemma summarise_two_mixed:
  "ok a \<Longrightarrow> \<not> ok b \<Longrightarrow> summarise ok [a, b] = \<lparr>total = 2, successful = 1, failed = 1\<rparr>"
  "ok a \<Longrightarrow> \<not> ok b \<Longrightarrow> summarise ok [b, a] = \<lparr>total = 2, successful = 1, failed = 1\<rparr>"
  by (simp_all add: summarise_def)

text \<open>
  Claim C3, as the code has it. In a batch of one well-formed item (its three required
  fields present) for a student of the \<^verbatim>\<open>students\<close> table and one item missing a required
  field, in either order, the well-formed item is stored and reported as successful, the
  other item is reported as failed with the missing-fields error and leaves the store as
  it is, and the summary is \<open>{total: 2, successful: 1, failed: 1}\<close>. (A well-formed item
  for a student id the table does not have is rejected by the foreign key, and then both
  items fail.)
\<close>

theorem batch_isolates_malformed_item:
  assumes "student_id good = Some sid" "date good = Some d" "status good = Some st"
    and "sid \<noteq> 0" "d \<noteq> []" "st \<noteq> []"
    and "sid \<in> set (map stu_id (students db))"
    and "missing_fields bad"
  shows
    "recordAttendance now db (Array [Object_item good, Object_item bad]) =
       (fst (record_item now db good),
        Results 200
          (count_message ''Attendance recorded: '' \<lparr>total = 2, successful = 1, failed = 1\<rparr>)
          [snd (record_item now db good), Item_failed missing_message bad]
          \<lparr>total = 2, successful = 1, failed = 1\<rparr>) \<and>
     recordAttendance now db (Array [Object_item bad, Object_item good]) =
       (fst (record_item now db good),
        Results 200
          (count_message ''Attendance recorded: '' \<lparr>total = 2, successful = 1, failed = 1\<rparr>)
          [Item_failed missing_message bad, snd (record_item now db good)]
          \<lparr>total = 2, successful = 1, failed = 1\<rparr>) \<and>
     (\<exists>a i. snd (record_item now db good) = Item_ok a i good) \<and>
     stored (fst (record_item now db good)) sid d st (or_null (notes_field good))"
proof -
  obtain a i where ok: "snd (record_item now db good) = Item_ok a i good"
    using record_item_stored(2) [OF assms(1-6), of db now] assms(7) by blast
  have st: "stored (fst (record_item now db good)) sid d st (or_null (notes_field good))"
    using record_item_stored(1) [OF assms(1-6), of db now] assms(7) by blast
  obtain db' where g: "record_item now db good = (db', Item_ok a i good)"
    using ok by (cases "record_item now db good") simp
  have bad: "record_item now db0 bad = (db0, Item_failed missing_message bad)" for db0
    using assms(8) by (rule record_item_missing)
  have s1: "summarise is_success [Item_ok a i good, Item_failed missing_message bad] =
      \<lparr>total = 2, successful = 1, failed = 1\<rparr>"
    by (rule summarise_two_mixed) simp_all
  have s2: "summarise is_success [Item_failed missing_message bad, Item_ok a i good] =
      \<lparr>total = 2, successful = 1, failed = 1\<rparr>"
    by (rule summarise_two_mixed) simp_all
  have r1: "recordAttendance now db (Array [Object_item good, Object_item bad]) =
       (db', Results 200
          (count_message ''Attendance recorded: '' \<lparr>total = 2, successful = 1, failed = 1\<rparr>)
          [Item_ok a i good, Item_failed missing_message bad]
          \<lparr>total = 2, successful = 1, failed = 1\<rparr>)"
    by (simp add: recordAttendance_def g bad s1)
  have r2: "recordAttendance now db (Array [Object_item bad, Object_item good]) =
       (db', Results 200
          (count_message ''Attendance recorded: '' \<lparr>total = 2, successful = 1, failed = 1\<rparr>)
          [Item_failed missing_message bad, Item_ok a i good]
          \<lparr>total = 2, successful = 1, failed = 1\<rparr>)"
    by (simp add: recordAttendance_def g bad s2)
  show ?thesis using r1 r2 st g by simp
qed

theorem batch_isolates_malformed_item_witness:
  "recordAttendance ''2024-01-05 09:00:00'' example_db
       (Array [Object_item (example_item 2 ''late''), Object_item example_bad_item]) =
     (example_db\<lparr>attendance := attendance example_db @
          [\<lparr>att_id = 2, att_student_id = 2, att_date = ''2024-01-05'', att_status = ''late'',
            att_notes = None, att_recorded_by = None,
            att_created_at = ''2024-01-05 09:00:00'',
            att_updated_at = ''2024-01-05 09:00:00''\<rparr>],
        attendance_seq := 2\<rparr>,
      Results 200 ''Attendance recorded: 1 successful, 1 failed''
        [Item_ok Created 2 (example_item 2 ''late''),
         Item_failed ''Missing required fields: student_id, date, status'' example_bad_item]
        \<lparr>total = 2, successful = 1, failed = 1\<rparr>)"
proof -
  have m: "missing_fields example_bad_item"
    by (simp add: example_bad_item_def missing_fields_def truthy_str_def)
  have nz: "(2::int) \<noteq> 0" "''2024-01-05'' \<noteq> []" "''late'' \<noteq> []"
    by simp_all
  have c: "count_message ''Attendance recorded: '' \<lparr>total = 2, successful = 1, failed = 1\<rparr> =
      ''Attendance recorded: 1 successful, 1 failed''"
    by code_simp
  have sel: "select_attendance_id example_db 2 ''2024-01-05'' = None"
    by (simp add: example_simps)
  have n: "next_attendance_id example_db = 2"
    by (simp add: example_simps)
  have r: "record_item ''2024-01-05 09:00:00'' example_db (example_item 2 ''late'') =
     (example_db\<lparr>attendance := attendance example_db @
          [\<lparr>att_id = 2, att_student_id = 2, att_date = ''2024-01-05'', att_status = ''late'',
            att_notes = None, att_recorded_by = None,
            att_created_at = ''2024-01-05 09:00:00'',
            att_updated_at = ''2024-01-05 09:00:00''\<rparr>],
        attendance_seq := 2\<rparr>,
      Item_ok Created 2 (example_item 2 ''late''))"
    using record_item_new [OF example_item_fields(1,2,3) nz sel example_enrolled,
        of "''2024-01-05 09:00:00''"]
    by (simp add: n new_attendance_row_def example_item_fields or_null_def truthy_str_def)
  have "recordAttendance ''2024-01-05 09:00:00'' example_db
       (Array [Object_item (example_item 2 ''late''), Object_item example_bad_item]) =
     (fst (record_item ''2024-01-05 09:00:00'' example_db (example_item 2 ''late'')),
      Results 200
        (count_message ''Attendance recorded: '' \<lparr>total = 2, successful = 1, failed = 1\<rparr>)
        [snd (record_item ''2024-01-05 09:00:00'' example_db (example_item 2 ''late'')),
         Item_failed missing_message example_bad_item]
        \<lparr>total = 2, successful = 1, failed = 1\<rparr>)"
    using batch_isolates_malformed_item [OF example_item_fields(1,2,3) nz example_enrolled m,
        of "''2024-01-05 09:00:00''"]
    by (rule conjunct1)
  then show ?thesis
    by (simp only: r c missing_message_def fst_conv snd_conv)
qed

theorem batch_unknown_student_both_fail:
  "\<not> missing_fields (example_item 3 ''present'') \<and> missing_fields example_bad_item \<and>
   recordAttendance ''2024-01-05 09:00:00'' example_db
       (Array [Object_item (example_item 3 ''present''), Object_item example_bad_item]) =
     (example_db,
      Results 200 ''Attendance recorded: 0 successful, 2 failed''
        [Item_failed ''SQLITE_CONSTRAINT: FOREIGN KEY constraint failed''
           (example_item 3 ''present''),
         Item_failed ''Missing required fields: student_id, date, status'' example_bad_item]
        \<lparr>total = 2, successful = 0, failed = 2\<rparr>)"
proof -
  have g: "\<not> missing_fields (example_item 3 ''present'')"
    by (simp add: example_item_def missing_fields_def truthy_num_def truthy_str_def)
  have m: "missing_fields example_bad_item"
    by (simp add: example_bad_item_def missing_fields_def truthy_str_def)
  have c: "count_message ''Attendance recorded: '' \<lparr>total = 2, successful = 0, failed = 2\<rparr> =
      ''Attendance recorded: 0 successful, 2 failed''"
    by code_simp
  have r: "record_item ''2024-01-05 09:00:00'' example_db (example_item 3 ''present'') =
      (example_db,
       Item_failed ''SQLITE_CONSTRAINT: FOREIGN KEY constraint failed'' (example_item 3 ''present''))"
    by (simp add: record_item_def missing_fields_def insert_attendance_def example_simps)
  have b: "record_item ''2024-01-05 09:00:00'' example_db example_bad_item =
      (example_db, Item_failed ''Missing required fields: student_id, date, status'' example_bad_item)"
    using record_item_missing [OF m] by (simp add: missing_message_def)
  have sm: "summarise is_success
      [Item_failed ''SQLITE_CONSTRAINT: FOREIGN KEY constraint failed'' (example_item 3 ''present''),
       Item_failed ''Missing required fields: student_id, date, status'' example_bad_item] =
      \<lparr>total = 2, successful = 0, failed = 2\<rparr>"
    by (simp add: summarise_def)
  have "recordAttendance ''2024-01-05 09:00:00'' example_db
       (Array [Object_item (example_item 3 ''present''), Object_item example_bad_item]) =
     (example_db,
      Results 200 ''Attendance recorded: 0 successful, 2 failed''
        [Item_failed ''SQLITE_CONSTRAINT: FOREIGN KEY constraint failed''
           (example_item 3 ''present''),
         Item_failed ''Missing required fields: student_id, date, status'' example_bad_item]
        \<lparr>total = 2, successful = 0, failed = 2\<rparr>)"
    by (simp add: recordAttendance_def r b sm c)
  then show ?thesis using g m by simp
qed

text \<open>
  Claim C8, as the code has it. A single submission missing a required field is answered
  with status 200 and the result envelope: its one result is the failed item with the
  missing-fields error, the summary is \<open>{total: 1, successful: 0, failed: 1}\<close>, and nothing
  is stored. The answer is not a 400.
\<close>

theorem single_missing_fields_reported_in_results:
  assumes "missing_fields it"
  shows "recordAttendance now db (Single it) =
     (db, Results 200
        (count_message ''Attendance recorded: '' \<lparr>total = 1, successful = 0, failed = 1\<rparr>)
        [Item_failed missing_message it] \<lparr>total = 1, successful = 0, failed = 1\<rparr>)"
  using assms by (simp add: recordAttendance_Single record_item_missing summarise_def)

theorem single_missing_fields_not_400:
  "http_status (snd (recordAttendance ''2024-01-05 09:00:00'' example_db
      (Single \<lparr>student_id = None, date = Some ''2024-01-05'', status = Some ''present'',
               notes_field = None\<rparr>))) = 200 \<and>
   http_status (snd (recordAttendance ''2024-01-05 09:00:00'' example_db
      (Single \<lparr>student_id = None, date = Some ''2024-01-05'', status = Some ''present'',
               notes_field = None\<rparr>))) \<noteq> 400"
  by (simp add: recordAttendance_def record_item_def)

theorem single_missing_fields_reported_in_results_witness:
  "missing_fields \<lparr>student_id = Some 1, date = None, status = Some ''present'', notes_field = None\<rparr> \<and>
   recordAttendance ''2024-01-05 09:00:00'' example_db
      (Single \<lparr>student_id = Some 1, date = None, status = Some ''present'', notes_field = None\<rparr>) =
     (example_db, Results 200 ''Attendance recorded: 0 successful, 1 failed''
        [Item_failed ''Missing required fields: student_id, date, status''
           \<lparr>student_id = Some 1, date = None, status = Some ''present'', notes_field = None\<rparr>]
        \<lparr>total = 1, successful = 0, failed = 1\<rparr>)"
proof -
  have m: "missing_fields \<lparr>student_id = Some 1, date = None, status = Some ''present'', notes_field = None\<rparr>"
    by (simp add: missing_fields_def truthy_str_def)
  have c: "count_message ''Attendance recorded: '' \<lparr>total = 1, successful = 0, failed = 1\<rparr> =
      ''Attendance recorded: 0 successful, 1 failed''"
    by code_simp
  show ?thesis
    using single_missing_fields_reported_in_results [OF m, of "''2024-01-05 09:00:00''" example_db] m c
    by (simp add: missing_message_def)
qed

section \<open>Recording twice\<close>

lemma stored_single:
  assumes "unique_key db" "stored db sid d st nt"
  shows "\<exists>r. records_for db sid d = [r] \<and> att_status r = st \<and> att_notes r = nt"
proof -
  have "length (records_for db sid d) \<le> 1" using assms(1) by (rule unique_key_records_for)
  moreover have "records_for db sid d \<noteq> []" using assms(2) by (simp add: stored_def)
  ultimately obtain r where r: "records_for db sid d = [r]"
    by (cases "records_for db sid d") auto
  then show ?thesis using assms(2) by (simp add: stored_def)
qed

text \<open>
  Claim C2. For a student of the \<^verbatim>\<open>students\<close> table, a date and two different statuses,
  recording the first status and then the second leaves exactly one record for the student
  and date; it carries the second status (after the first call it carried the first), and
  the second call reports \<open>updated\<close> with the id of that record.
\<close>

theorem upsert_twice_converges:
  assumes "unique_key db" "sid \<in> set (map stu_id (students db))"
    and "student_id it1 = Some sid" "date it1 = Some d" "status it1 = Some st1"
    and "student_id it2 = Some sid" "date it2 = Some d" "status it2 = Some st2"
    and "sid \<noteq> 0" "d \<noteq> []" "st1 \<noteq> []" "st2 \<noteq> []" "st1 \<noteq> st2"
  shows "\<exists>r1 r2.
      records_for (fst (recordAttendance now1 db (Single it1))) sid d = [r1] \<and>
      att_status r1 = st1 \<and>
      records_for (fst (recordAttendance now2 (fst (recordAttendance now1 db (Single it1)))
                          (Single it2))) sid d = [r2] \<and>
      att_status r2 = st2 \<and> att_status r2 \<noteq> att_status r1 \<and> att_id r2 = att_id r1 \<and>
      snd (record_item now2 (fst (recordAttendance now1 db (Single it1))) it2) =
        Item_ok Updated (att_id r1) it2"
proof -
  define db1 where "db1 = fst (record_item now1 db it1)"
  have u1: "unique_key db1"
    unfolding db1_def using assms(1) by (rule unique_key_record_item)
  have "stored db1 sid d st1 (or_null (notes_field it1))"
    unfolding db1_def
    using record_item_stored(1) [OF assms(3,4,5,9,10,11), of db now1] assms(2) by blast
  then obtain r1 where r1: "records_for db1 sid d = [r1]" "att_status r1 = st1"
    using stored_single [OF u1] by blast
  have sel: "select_attendance_id db1 sid d = Some (att_id r1)"
    using r1(1) by (simp add: select_records_for)
  have step: "record_item now2 db1 it2 =
      (update_attendance now2 db1 st2 (or_null (notes_field it2)) sid d,
       Item_ok Updated (att_id r1) it2)"
    using assms(6,7,8,9,10,12) sel by (rule record_item_existing)
  have r2: "records_for (fst (record_item now2 db1 it2)) sid d =
      [set_status_notes now2 st2 (or_null (notes_field it2)) r1]"
    using r1(1) by (simp add: step records_for_update)
  have a: "fst (recordAttendance now1 db (Single it1)) = db1"
    by (simp add: recordAttendance_Single db1_def)
  have b: "fst (recordAttendance now2 db1 (Single it2)) = fst (record_item now2 db1 it2)"
    by (simp add: recordAttendance_Single)
  show ?thesis
    unfolding a b using r1 r2 step assms(13)
    by (simp add: set_status_notes_def)
qed

theorem upsert_twice_converges_witness:
  "\<exists>r1 r2.
      records_for (fst (recordAttendance ''2024-01-05 09:00:00'' example_db
                          (Single (example_item 2 ''late'')))) 2 ''2024-01-05'' = [r1] \<and>
      att_status r1 = ''late'' \<and>
      records_for (fst (recordAttendance ''2024-01-05 09:30:00''
                          (fst (recordAttendance ''2024-01-05 09:00:00'' example_db
                                  (Single (example_item 2 ''late''))))
                          (Single (example_item 2 ''present'')))) 2 ''2024-01-05'' = [r2] \<and>
      att_status r2 = ''present'' \<and> att_id r2 = att_id r1"
proof -
  have nz: "(2::int) \<noteq> 0" "''2024-01-05'' \<noteq> []" "''late'' \<noteq> []" "''present'' \<noteq> []"
    "''late'' \<noteq> ''present''"
    by simp_all
  show ?thesis
    using upsert_twice_converges [OF example_unique example_enrolled
        example_item_fields(1,2,3) example_item_fields(1,2,3) nz,
        of "''2024-01-05 09:00:00''" "''2024-01-05 09:30:00''"]
    by blast
qed

section \<open>Mark all present\<close>

lemma mark_student_students [simp]: "students (fst (mark_student now db d nt sid)) = students db"
  by (auto simp: mark_student_def dest!: insert_attendance_keys split: option.splits sum.splits)

lemma unique_key_mark_student:
  "unique_key db \<Longrightarrow> unique_key (fst (mark_student now db d nt sid))"
  by (auto simp: mark_student_def unique_key_def dest!: insert_attendance_keys
      split: option.splits sum.splits)

lemma mark_student_enrolled:
  assumes "sid \<in> set (map stu_id (students db))"
  shows "\<exists>a i. snd (mark_student now db d nt sid) = Mark_ok a sid i"
    and "stored (fst (mark_student now db d nt sid)) sid d ''present'' (or_null nt)"
proof -
  show "\<exists>a i. snd (mark_student now db d nt sid) = Mark_ok a sid i"
  proof (cases "select_attendance_id db sid d")
    case None
    then have "(sid, d) \<notin> set (map att_key (attendance db))" using select_None_iff by blast
    then show ?thesis
      using assms None by (simp add: mark_student_def insert_attendance_Inr del: set_map)
  next
    case (Some e)
    then show ?thesis by (simp add: mark_student_def)
  qed
  show "stored (fst (mark_student now db d nt sid)) sid d ''present'' (or_null nt)"
  proof (cases "select_attendance_id db sid d")
    case None
    then have "(sid, d) \<notin> set (map att_key (attendance db))" using select_None_iff by blast
    then have i: "insert_attendance now db sid d ''present'' (or_null nt) =
       Inr (db\<lparr>attendance := attendance db @ [new_attendance_row now db sid d ''present'' (or_null nt)],
               attendance_seq := next_attendance_id db\<rparr>, next_attendance_id db)"
      using assms by (intro insert_attendance_Inr)
    show ?thesis
      using stored_insert [OF i] None by (simp add: mark_student_def i)
  next
    case (Some e)
    then show ?thesis using stored_update [OF Some] by (simp add: mark_student_def)
  qed
qed

lemma mark_student_other:
  assumes "x \<noteq> y"
  shows "records_for (fst (mark_student now db d nt y)) x d' = records_for db x d'"
proof (cases "select_attendance_id db y d")
  case (Some e)
  then show ?thesis using assms by (simp add: mark_student_def records_for_update)
next
  case None
  show ?thesis
  proof (cases "insert_attendance now db y d ''present'' (or_null nt)")
    case (Inl e)
    then show ?thesis using None by (simp add: mark_student_def)
  next
    case (Inr p)
    obtain db' i where p: "p = (db', i)" by (cases p)
    have "insert_attendance now db y d ''present'' (or_null nt) = Inr (db', i)"
      using Inr p by simp
    from records_for_insert(1) [OF this, of x d'] show ?thesis
      using assms None Inr p by (simp add: mark_student_def)
  qed
qed

lemma mark_student_keeps:
  assumes "stored db x d ''present'' (or_null nt)"
  shows "stored (fst (mark_student now db d nt y)) x d ''present'' (or_null nt)"
proof (cases "x = y")
  case False
  then show ?thesis using assms by (simp add: stored_def mark_student_other)
next
  case True
  have "records_for db y d \<noteq> []" using assms True by (simp add: stored_def)
  then obtain e where e: "select_attendance_id db y d = Some e"
    by (cases "records_for db y d") (simp_all add: select_records_for)
  show ?thesis using stored_update [OF e] e True by (simp add: mark_student_def)
qed

lemma mark_loop_students [simp]:
  "students (fst (mark_loop now db d nt sids acc)) = students db"
proof (induction sids arbitrary: db acc)
  case Nil
  show ?case by simp
next
  case (Cons x xs)
  obtain db' r where m: "mark_student now db d nt x = (db', r)" by (cases "mark_student now db d nt x")
  have "students db' = students db" using mark_student_students [of now db d nt x] m by simp
  then show ?case using Cons.IH [of db' "acc @ [r]"] m by simp
qed

lemma unique_key_mark_loop:
  "unique_key db \<Longrightarrow> unique_key (fst (mark_loop now db d nt sids acc))"
proof (induction sids arbitrary: db acc)
  case Nil
  then show ?case by simp
next
  case (Cons x xs)
  obtain db' r where m: "mark_student now db d nt x = (db', r)" by (cases "mark_student now db d nt x")
  have "unique_key db'" using unique_key_mark_student [OF Cons.prems, of now d nt x] m by simp
  then show ?case using Cons.IH [of db' "acc @ [r]"] m by simp
qed

lemma mark_loop_keeps:
  "stored db x d ''present'' (or_null nt) \<Longrightarrow>
   stored (fst (mark_loop now db d nt sids acc)) x d ''present'' (or_null nt)"
proof (induction sids arbitrary: db acc)
  case Nil
  then show ?case by simp
next
  case (Cons y ys)
  obtain db' r where m: "mark_student now db d nt y = (db', r)" by (cases "mark_student now db d nt y")
  have "stored db' x d ''present'' (or_null nt)"
    using mark_student_keeps [OF Cons.prems, of now y] m by simp
  then show ?case using Cons.IH [of db' "acc @ [r]"] m by simp
qed

lemma mark_loop_stored:
  "set sids \<subseteq> set (map stu_id (students db)) \<Longrightarrow> x \<in> set sids \<Longrightarrow>
   stored (fst (mark_loop now db d nt sids acc)) x d ''present'' (or_null nt)"
proof (induction sids arbitrary: db acc)
  case Nil
  then show ?case by simp
next
  case (Cons y ys)
  obtain db' r where m: "mark_student now db d nt y = (db', r)" by (cases "mark_student now db d nt y")
  have y: "y \<in> set (map stu_id (students db))" using Cons.prems(1) by simp
  have st: "students db' = students db" using mark_student_students [of now db d nt y] m by simp
  show ?case
  proof (cases "x = y")
    case True
    have "stored db' x d ''present'' (or_null nt)"
      using mark_student_enrolled(2) [OF y, of now d nt] m True by simp
    then show ?thesis using mark_loop_keeps [of db' x d nt now ys "acc @ [r]"] m by simp
  next
    case False
    then have "x \<in> set ys" using Cons.prems(2) by simp
    moreover have "set ys \<subseteq> set (map stu_id (students db'))" using Cons.prems(1) st by simp
    ultimately show ?thesis using Cons.IH [of db' "acc @ [r]"] m by simp
  qed
qed

lemma mark_loop_results:
  "set sids \<subseteq> set (map stu_id (students db)) \<Longrightarrow>
   \<exists>rs. snd (mark_loop now db d nt sids acc) = acc @ rs \<and> map mark_student_id rs = sids \<and>
        (\<forall>r \<in> set rs. mark_success r)"
proof (induction sids arbitrary: db acc)
  case Nil
  then show ?case by simp
next
  case (Cons y ys)
  obtain db' r where m: "mark_student now db d nt y = (db', r)" by (cases "mark_student now db d nt y")
  have y: "y \<in> set (map stu_id (students db))" using Cons.prems(1) by simp
  have st: "students db' = students db" using mark_student_students [of now db d nt y] m by simp
  obtain a i where r: "r = Mark_ok a y i"
    using mark_student_enrolled(1) [OF y, of now d nt] m by auto
  have "set ys \<subseteq> set (map stu_id (students db'))" using Cons.prems(1) st by simp
  from Cons.IH [OF this, of "acc @ [r]"]
  obtain rs where rs: "snd (mark_loop now db' d nt ys (acc @ [r])) = (acc @ [r]) @ rs"
    "map mark_student_id rs = ys" "\<forall>r \<in> set rs. mark_success r" by blast
  have "snd (mark_loop now db d nt (y # ys) acc) = acc @ (r # rs)" using rs(1) m by simp
  moreover have "map mark_student_id (r # rs) = y # ys" using rs(2) r by simp
  moreover have "\<forall>r' \<in> set (r # rs). mark_success r'" using rs(3) r by simp
  ultimately show ?case by (intro exI [of _ "r # rs"] conjI)
qed

lemma select_active_students_enrolled:
  "set (select_active_students db cid) \<subseteq> set (map stu_id (students db))"
  by (auto simp: select_active_students_def)

lemma summarise_all_ok:
  "\<forall>r \<in> set rs. ok r \<Longrightarrow>
   summarise ok rs = \<lparr>total = length rs, successful = length rs, failed = 0\<rparr>"
  by (simp add: summarise_def)

lemma markAllPresent_run:
  assumes "class_id body = Some cid" "mark_date body = Some d" "cid \<noteq> 0" "d \<noteq> []"
    and "select_active_students db cid \<noteq> []"
  shows "markAllPresent now db body =
     (fst (mark_loop now db d (mark_notes body) (select_active_students db cid) []),
      Results 200
        (count_message ''Marked all present: ''
           (summarise mark_success
              (snd (mark_loop now db d (mark_notes body) (select_active_students db cid) []))))
        (snd (mark_loop now db d (mark_notes body) (select_active_students db cid) []))
        (summarise mark_success
           (snd (mark_loop now db d (mark_notes body) (select_active_students db cid) []))))"
  using assms
  by (simp add: markAllPresent_def truthy_num_def truthy_str_def Let_def split: prod.splits)

lemma mark_loop_other:
  "x \<notin> set sids \<Longrightarrow>
   records_for (fst (mark_loop now db d nt sids acc)) x d' = records_for db x d'"
proof (induction sids arbitrary: db acc)
  case Nil
  show ?case by simp
next
  case (Cons y ys)
  obtain db1 r where m: "mark_student now db d nt y = (db1, r)" by (cases "mark_student now db d nt y")
  have xy: "x \<noteq> y" and xs: "x \<notin> set ys" using Cons.prems by simp_all
  have "records_for db1 x d' = records_for db x d'"
    using mark_student_other [OF xy, of now db d nt d'] m by simp
  then show ?case using Cons.IH [OF xs, of db1 "acc @ [r]"] m by simp
qed

text \<open>
  Claim C7. Let the active students of the class be the rows of \<^verbatim>\<open>students\<close> with this
  class id and status \<^verbatim>\<open>active\<close>, \<open>N\<close> of them. For a class and a date,
  mark-all-present gives exactly \<open>N\<close> results, one per active student of the class in table
  order and each successful (created or updated); afterwards each of these students has a
  record for the date, every such record with status \<^verbatim>\<open>present\<close>, whatever was recorded for
  the student before, and in a table with at most one record per student and date it is
  exactly one record. The records of every other student (of another class, or not
  active) are as they were. (For \<open>N = 0\<close> the answer is a 404 without results and the
  table is as it was.)
\<close>

theorem markAllPresent_marks_every_active_student:
  assumes "class_id body = Some cid" "mark_date body = Some d" "cid \<noteq> 0" "d \<noteq> []"
    and "cls = filter (\<lambda>s. stu_class_id s = Some cid \<and> stu_status s = Some ''active'') (students db)"
  shows
    "(cls = [] \<longrightarrow>
        markAllPresent now db body =
          (db, Error_response 404 ''No active students found in this class'' None)) \<and>
     (cls \<noteq> [] \<longrightarrow>
        (\<exists>db' results.
           markAllPresent now db body =
             (db', Results 200
                (count_message ''Marked all present: ''
                   \<lparr>total = length cls, successful = length cls, failed = 0\<rparr>)
                results
                \<lparr>total = length cls, successful = length cls, failed = 0\<rparr>) \<and>
           length results = length cls \<and>
           map mark_student_id results = map stu_id cls \<and>
           (\<forall>r \<in> set results. mark_success r) \<and>
           (\<forall>s \<in> set cls.
              stored db' (stu_id s) d ''present'' (or_null (mark_notes body)) \<and>
              (unique_key db \<longrightarrow> length (records_for db' (stu_id s) d) = 1)) \<and>
           (\<forall>sid d'. sid \<notin> set (map stu_id cls) \<longrightarrow>
              records_for db' sid d' = records_for db sid d') \<and>
           students db' = students db))"
proof (intro conjI impI)
  have sel: "select_active_students db cid = map stu_id cls"
    by (simp add: select_active_students_def assms(5))
  assume "cls = []"
  then show "markAllPresent now db body =
      (db, Error_response 404 ''No active students found in this class'' None)"
    using assms(1-4) sel by (simp add: markAllPresent_def truthy_num_def truthy_str_def)
next
  assume ne: "cls \<noteq> []"
  define studs where "studs = map stu_id cls"
  have sel: "select_active_students db cid = studs"
    by (simp add: select_active_students_def assms(5) studs_def)
  have ne': "select_active_students db cid \<noteq> []"
    using ne sel by (simp add: studs_def)
  define db' where "db' = fst (mark_loop now db d (mark_notes body) studs [])"
  define results where "results = snd (mark_loop now db d (mark_notes body) studs [])"
  have sub: "set studs \<subseteq> set (map stu_id (students db))"
    using select_active_students_enrolled [of db cid] sel by simp
  obtain rs where rs: "results = [] @ rs" "map mark_student_id rs = studs"
    "\<forall>r \<in> set rs. mark_success r"
    unfolding results_def using mark_loop_results [OF sub, of now d "mark_notes body" "[]"] by blast
  have res: "map mark_student_id results = studs" "\<forall>r \<in> set results. mark_success r"
    using rs by simp_all
  have len: "length results = length cls"
    using res(1) by (metis length_map studs_def)
  have sm: "summarise mark_success results =
      \<lparr>total = length cls, successful = length cls, failed = 0\<rparr>"
    using summarise_all_ok [OF res(2)] len by simp
  have run: "markAllPresent now db body =
      (db', Results 200
         (count_message ''Marked all present: ''
            \<lparr>total = length cls, successful = length cls, failed = 0\<rparr>)
         results \<lparr>total = length cls, successful = length cls, failed = 0\<rparr>)"
    using markAllPresent_run [OF assms(1-4) ne', of now] sm
    by (simp add: db'_def results_def sel)
  have post: "stored db' (stu_id s) d ''present'' (or_null (mark_notes body)) \<and>
      (unique_key db \<longrightarrow> length (records_for db' (stu_id s) d) = 1)" if "s \<in> set cls" for s
  proof
    have mem: "stu_id s \<in> set studs" using that by (simp add: studs_def)
    show s: "stored db' (stu_id s) d ''present'' (or_null (mark_notes body))"
      unfolding db'_def using sub mem by (rule mark_loop_stored)
    show "unique_key db \<longrightarrow> length (records_for db' (stu_id s) d) = 1"
    proof
      assume "unique_key db"
      then have "unique_key db'" unfolding db'_def by (rule unique_key_mark_loop)
      from stored_single [OF this s] show "length (records_for db' (stu_id s) d) = 1" by auto
    qed
  qed
  have frame: "records_for db' sid d' = records_for db sid d'"
    if "sid \<notin> set (map stu_id cls)" for sid d'
    unfolding db'_def using that by (intro mark_loop_other) (simp add: studs_def)
  have stu: "students db' = students db"
    unfolding db'_def by simp
  show "\<exists>db' results.
           markAllPresent now db body =
             (db', Results 200
                (count_message ''Marked all present: ''
                   \<lparr>total = length cls, successful = length cls, failed = 0\<rparr>)
                results
                \<lparr>total = length cls, successful = length cls, failed = 0\<rparr>) \<and>
           length results = length cls \<and>
           map mark_student_id results = map stu_id cls \<and>
           (\<forall>r \<in> set results. mark_success r) \<and>
           (\<forall>s \<in> set cls.
              stored db' (stu_id s) d ''present'' (or_null (mark_notes body)) \<and>
              (unique_key db \<longrightarrow> length (records_for db' (stu_id s) d) = 1)) \<and>
           (\<forall>sid d'. sid \<notin> set (map stu_id cls) \<longrightarrow>
              records_for db' sid d' = records_for db sid d') \<and>
           students db' = students db"
  proof (intro exI [of _ db'] exI [of _ results] conjI ballI allI impI)
    show "map mark_student_id results = map stu_id cls" using res(1) by (simp add: studs_def)
  qed (use run len res(2) post frame stu in blast)+
qed

theorem markAllPresent_marks_every_active_student_witness:
  "length (students example_school) = 4 \<and>
   (\<exists>db' results.
      markAllPresent ''2024-01-05 09:00:00'' example_school example_mark_body =
        (db', Results 200 ''Marked all present: 2 successful, 0 failed'' results
                \<lparr>total = 2, successful = 2, failed = 0\<rparr>) \<and>
      map mark_student_id results = [1, 2] \<and>
      stored db' 1 ''2024-01-05'' ''present'' None \<and>
      stored db' 2 ''2024-01-05'' ''present'' None \<and>
      length (records_for db' 1 ''2024-01-05'') = 1 \<and>
      records_for db' 3 ''2024-01-05'' = [] \<and>
      map att_status (records_for db' 4 ''2024-01-05'') = [''late''])"
proof -
  define cls where "cls =
    [\<lparr>stu_id = 1, stu_class_id = Some 1, stu_status = Some ''active''\<rparr>,
     \<lparr>stu_id = 2, stu_class_id = Some (1::int), stu_status = Some ''active''\<rparr>]"
  have s: "cls = filter (\<lambda>s. stu_class_id s = Some 1 \<and> stu_status s = Some ''active'')
      (students example_school)"
    by (simp add: cls_def example_school_def)
  have f: "class_id example_mark_body = Some 1" "mark_date example_mark_body = Some ''2024-01-05''"
    "(1::int) \<noteq> 0" "''2024-01-05'' \<noteq> []"
    by (simp_all add: example_mark_body_def)
  have c: "count_message ''Marked all present: '' \<lparr>total = 2, successful = 2, failed = 0\<rparr> =
      ''Marked all present: 2 successful, 0 failed''"
    by code_simp
  have n: "or_null (mark_notes example_mark_body) = None"
    by (simp add: example_mark_body_def or_null_def truthy_str_def)
  have len: "length cls = 2" and ids: "map stu_id cls = [1, 2]" and ne: "cls \<noteq> []"
    by (simp_all add: cls_def)
  have u: "unique_key example_school"
    by (simp add: example_school_def unique_key_def att_key_def)
  have before: "records_for example_school 3 ''2024-01-05'' = []"
    "map att_status (records_for example_school 4 ''2024-01-05'') = [''late'']"
    by (simp_all add: example_school_def records_for_def att_key_def)
  note t = markAllPresent_marks_every_active_student [OF f s, of "''2024-01-05 09:00:00''",
      unfolded len c n ids]
  note ex = t [THEN conjunct2, THEN mp, OF ne]
  from ex obtain db' results where
    run: "markAllPresent ''2024-01-05 09:00:00'' example_school example_mark_body =
        (db', Results 200 ''Marked all present: 2 successful, 0 failed'' results
                \<lparr>total = 2, successful = 2, failed = 0\<rparr>)"
    and rid: "map mark_student_id results = [1, 2]"
    and post: "\<forall>s \<in> set cls.
        stored db' (stu_id s) ''2024-01-05'' ''present'' None \<and>
        (unique_key example_school \<longrightarrow> length (records_for db' (stu_id s) ''2024-01-05'') = 1)"
    and frame: "\<forall>sid d'. sid \<notin> set [1, 2] \<longrightarrow>
        records_for db' sid d' = records_for example_school sid d'"
    by (elim exE conjE) (rule that, assumption+)
  have p1: "stored db' 1 ''2024-01-05'' ''present'' None"
    "length (records_for db' 1 ''2024-01-05'') = 1"
    "stored db' 2 ''2024-01-05'' ''present'' None"
    using post u by (simp_all add: cls_def)
  have p3: "records_for db' 3 ''2024-01-05'' = records_for example_school 3 ''2024-01-05''"
    "records_for db' 4 ''2024-01-05'' = records_for example_school 4 ''2024-01-05''"
    using frame by simp_all
  have four: "length (students example_school) = 4"
    by (simp add: example_school_def)
  show ?thesis
    using four run rid p1 p3 before by auto
qed

section \<open>Notes on the update path\<close>



section \<open>Token verification\<close>

lemma jwt_verify_cases:
  "jwt_verify (Malformed s) secret now = Inl JsonWebTokenError"
  "key \<noteq> secret \<Longrightarrow> jwt_verify (Jwt p key) secret now = Inl JsonWebTokenError"
  "jwt_exp p \<le> now \<Longrightarrow> jwt_verify (Jwt p secret) secret now = Inl TokenExpiredError"
  "now < jwt_exp p \<Longrightarrow> jwt_verify (Jwt p secret) secret now = Inr p"
  by (simp_all add: jwt_verify_def)

lemma authenticateToken_bearer:
  assumes "authorization req = Some (Bearer t)" "t \<noteq> Malformed []"
  shows "authenticateToken secret now db req =
     (case jwt_verify t secret now of
        Inr decoded \<Rightarrow>
          (case select_user_by_id db (jwt_claims decoded ''userId'') of
             None \<Rightarrow> Rejected 401 ''Invalid token. User not found.''
           | Some u \<Rightarrow> Next (req\<lparr>user := Some u, userId := u ''id''\<rparr>))
      | Inl JsonWebTokenError \<Rightarrow> Rejected 401 ''Invalid token.''
      | Inl TokenExpiredError \<Rightarrow> Rejected 401 ''Token expired. Please login again.'')"
proof -
  have "token_truthy (Some t)"
    using assms(2) by (cases t) (simp_all add: token_truthy_def)
  then show ?thesis
    using assms(1) by (simp add: authenticateToken_def Let_def split: option.splits)
qed

text \<open>
  Claim C4. Verification fails with the invalid-token error when the token is malformed
  or its signature does not match the secret, and with the expired-token error when the
  token is signed with the secret and the time has reached its expiry. The middleware
  answers the first with 401 \<^verbatim>\<open>Invalid token.\<close> and the second with 401
  \<^verbatim>\<open>Token expired. Please login again.\<close>; the two errors and the two answers differ.
\<close>

theorem token_rejections_distinct:
  assumes "authorization req = Some (Bearer t)" "t \<noteq> Malformed []"
  shows
    "((\<exists>s. t = Malformed s) \<or> (\<exists>p key. t = Jwt p key \<and> key \<noteq> secret) \<longrightarrow>
        verifyToken secret now t = Inl JsonWebTokenError \<and>
        authenticateToken secret now db req = Rejected 401 ''Invalid token.'') \<and>
     (\<forall>p. t = Jwt p secret \<and> jwt_exp p \<le> now \<longrightarrow>
        verifyToken secret now t = Inl TokenExpiredError \<and>
        authenticateToken secret now db req = Rejected 401 ''Token expired. Please login again.'') \<and>
     Rejected 401 ''Invalid token.'' \<noteq> Rejected 401 ''Token expired. Please login again.'' \<and>
     JsonWebTokenError \<noteq> TokenExpiredError"
proof (intro conjI impI allI)
  assume bad: "(\<exists>s. t = Malformed s) \<or> (\<exists>p key. t = Jwt p key \<and> key \<noteq> secret)"
  then show v: "verifyToken secret now t = Inl JsonWebTokenError"
    by (auto simp: verifyToken_def jwt_verify_cases)
  then show "authenticateToken secret now db req = Rejected 401 ''Invalid token.''"
    using authenticateToken_bearer [OF assms, of secret now db] by (simp add: verifyToken_def)
next
  fix p assume ex: "t = Jwt p secret \<and> jwt_exp p \<le> now"
  then show v: "verifyToken secret now t = Inl TokenExpiredError"
    by (simp add: verifyToken_def jwt_verify_cases)
  then show "authenticateToken secret now db req = Rejected 401 ''Token expired. Please login again.''"
    using authenticateToken_bearer [OF assms, of secret now db] by (simp add: verifyToken_def)
qed simp_all

theorem token_rejections_distinct_witness:
  "authenticateToken ''key'' 5000 example_db
     (example_request (Some (Bearer (generateToken ''other'' 1000 (user_columns example_admin_row)))) None)
     = Rejected 401 ''Invalid token.'' \<and>
   authenticateToken ''key'' 5000 example_db
     (example_request (Some (Bearer (Malformed ''abc''))) None)
     = Rejected 401 ''Invalid token.'' \<and>
   authenticateToken ''key'' 90000 example_db
     (example_request (Some (Bearer (generateToken ''key'' 1000 (user_columns example_admin_row)))) None)
     = Rejected 401 ''Token expired. Please login again.''"
proof -
  define u where "u = user_columns example_admin_row"
  have g: "generateToken k 1000 u =
      Jwt \<lparr>jwt_claims = claims_object (u ''id'') (u ''username'') (u ''role''),
           jwt_iat = 1000, jwt_exp = 87400\<rparr> k" for k
    by (simp add: generateToken_def jwt_sign_def)
  have a: "authorization (example_request (Some (Bearer x)) None) = Some (Bearer x)" for x
    by (simp add: example_request_def)
  have n1: "generateToken ''other'' 1000 u \<noteq> Malformed []" "Malformed ''abc'' \<noteq> Malformed []"
    "generateToken ''key'' 1000 u \<noteq> Malformed []"
    by (simp_all add: g)
  have c1: "authenticateToken ''key'' 5000 example_db
     (example_request (Some (Bearer (generateToken ''other'' 1000 u))) None)
     = Rejected 401 ''Invalid token.''"
    using token_rejections_distinct [OF a n1(1), of "''key''" 5000 example_db]
    by (simp add: g)
  have c2: "authenticateToken ''key'' 5000 example_db
     (example_request (Some (Bearer (Malformed ''abc''))) None)
     = Rejected 401 ''Invalid token.''"
    using token_rejections_distinct [OF a n1(2), of "''key''" 5000 example_db]
    by simp
  have c3: "authenticateToken ''key'' 90000 example_db
     (example_request (Some (Bearer (generateToken ''key'' 1000 u))) None)
     = Rejected 401 ''Token expired. Please login again.''"
    using token_rejections_distinct [OF a n1(3), of "''key''" 90000 example_db]
    by (simp add: g)
  show ?thesis using c1 c2 c3 by (simp add: u_def)
qed

section \<open>The admin guard\<close>

text \<open>
  Claim C5. The guard rejects a request without an attached identity with 401, rejects a
  request whose attached identity has a role other than \<^verbatim>\<open>admin\<close> with 403, and passes a
  request whose attached identity has the role \<^verbatim>\<open>admin\<close>. So the answer is 401 exactly
  when no identity is attached and 403 exactly when a non-admin identity is attached; a
  request that passed the authentication middleware is never answered 401 by the guard.
\<close>

theorem requireAdmin_guard:
  "(user req = None \<longrightarrow> requireAdmin req = Rejected 401 ''Authentication required.'') \<and>
   (\<forall>u. user req = Some u \<and> u ''role'' \<noteq> Some (JStr ''admin'') \<longrightarrow>
      requireAdmin req = Rejected 403 ''Admin access required.'') \<and>
   (\<forall>u. user req = Some u \<and> u ''role'' = Some (JStr ''admin'') \<longrightarrow> requireAdmin req = Next req) \<and>
   ((\<exists>msg. requireAdmin req = Rejected 401 msg) \<longleftrightarrow> user req = None) \<and>
   ((\<exists>msg. requireAdmin req = Rejected 403 msg) \<longleftrightarrow>
      (\<exists>u. user req = Some u \<and> u ''role'' \<noteq> Some (JStr ''admin''))) \<and>
   (\<forall>req0 secret now db. authenticateToken secret now db req0 = Next req \<longrightarrow>
      (\<forall>msg. requireAdmin req \<noteq> Rejected 401 msg))"
proof -
  have auth: "user req \<noteq> None" if "authenticateToken secret now db req0 = Next req"
    for req0 secret now db
    using that
    by (auto simp: authenticateToken_def Let_def
        split: option.splits sum.splits jwt_error.splits if_splits)
  show ?thesis
    using auth by (auto simp: requireAdmin_def split: option.splits)
qed

theorem requireAdmin_guard_witness:
  "requireAdmin (example_request None None) = Rejected 401 ''Authentication required.'' \<and>
   requireAdmin (example_request None None\<lparr>user := Some example_teacher\<rparr>) =
     Rejected 403 ''Admin access required.'' \<and>
   requireAdmin (example_request None None\<lparr>user := Some example_admin\<rparr>) =
     Next (example_request None None\<lparr>user := Some example_admin\<rparr>)"
proof -
  have n: "user (example_request None None) = None"
    by (simp add: example_request_def)
  have t: "user (example_request None None\<lparr>user := Some example_teacher\<rparr>) = Some example_teacher \<and>
      example_teacher ''role'' \<noteq> Some (JStr ''admin'')"
    by (simp add: example_teacher_def example_teacher_row_def select_columns_def user_columns_def)
  have a: "user (example_request None None\<lparr>user := Some example_admin\<rparr>) = Some example_admin \<and>
      example_admin ''role'' = Some (JStr ''admin'')"
    by (simp add: example_admin_def example_admin_row_def select_columns_def user_columns_def)
  show ?thesis
    using requireAdmin_guard [of "example_request None None"] n
      requireAdmin_guard [of "example_request None None\<lparr>user := Some example_teacher\<rparr>"] t
      requireAdmin_guard [of "example_request None None\<lparr>user := Some example_admin\<rparr>"] a
    by blast
qed

section \<open>Issued tokens\<close>

lemma claims_object_simps [simp]:
  "claims_object a b c ''userId'' = a"
  "claims_object a b c ''username'' = b"
  "claims_object a b c ''role'' = c"
  "k \<notin> {''userId'', ''username'', ''role''} \<Longrightarrow> claims_object a b c k = None"
  by (simp_all add: claims_object_def)

lemma session_token_valid:
  "jwt_verify (session_token secret now s) secret now =
     Inr \<lparr>jwt_claims = claims_object (ses_userId s) (ses_username s) None,
          jwt_iat = now, jwt_exp = now + 3600\<rparr>"
  by (simp add: session_token_def jwt_sign_def jwt_verify_def)

lemma authenticateToken_session:
  assumes "authorization req = None" "session req = Some s" "truthy (ses_userId s)"
  shows "authenticateToken secret now db req =
     (case select_user_by_id db (ses_userId s) of
        None \<Rightarrow> Rejected 401 ''Invalid token. User not found.''
      | Some u \<Rightarrow> Next (req\<lparr>user := Some u, userId := u ''id''\<rparr>))"
proof -
  have t: "token_truthy (Some (session_token secret now s))"
    by (simp add: token_truthy_def session_token_def jwt_sign_def)
  have n: "\<not> token_truthy None" by (simp add: token_truthy_def)
  show ?thesis
    using assms t n by (simp add: authenticateToken_def session_token_valid)
qed

lemma login_ok:
  assumes "login compare secret now db req body = (req', Login_ok profile tok)"
  shows "\<exists>u. profile = without_password_hash u \<and> tok = generateToken secret now u"
  using assms
  by (auto simp: login_def split: option.splits if_splits)

text \<open>
  Claim C6, as the code has it. The token issued at login embeds the user's id, username
  and role and expires 24 hours after its issue. The token of the session bridge (no bearer
  token, a session carrying a user id) embeds the session's user id and username and no
  role claim, expires 1 hour after its issue, and is accepted by the verification that
  follows it.
\<close>

theorem issued_tokens_claims_and_expiry:
  "jwt_decode (generateToken secret now u) =
     Some \<lparr>jwt_claims = claims_object (u ''id'') (u ''username'') (u ''role''),
           jwt_iat = now, jwt_exp = now + 24 * 60 * 60\<rparr> \<and>
   (\<forall>req' profile tok.
      login compare secret now db req body = (req', Login_ok profile tok) \<longrightarrow>
        (\<exists>p. jwt_decode tok = Some p \<and> jwt_exp p = jwt_iat p + 24 * 60 * 60 \<and>
             jwt_claims p ''userId'' = profile ''id'' \<and>
             jwt_claims p ''username'' = profile ''username'' \<and>
             jwt_claims p ''role'' = profile ''role'')) \<and>
   jwt_decode (session_token secret now s) =
     Some \<lparr>jwt_claims = claims_object (ses_userId s) (ses_username s) None,
           jwt_iat = now, jwt_exp = now + 60 * 60\<rparr> \<and>
   claims_object (ses_userId s) (ses_username s) None ''role'' = None \<and>
   (authorization req = None \<and> session req = Some s \<and> truthy (ses_userId s) \<longrightarrow>
      authenticateToken secret now db req =
        (case select_user_by_id db (ses_userId s) of
           None \<Rightarrow> Rejected 401 ''Invalid token. User not found.''
         | Some u \<Rightarrow> Next (req\<lparr>user := Some u, userId := u ''id''\<rparr>)))"
proof (intro conjI allI impI)
  show "jwt_decode (generateToken secret now u) =
     Some \<lparr>jwt_claims = claims_object (u ''id'') (u ''username'') (u ''role''),
           jwt_iat = now, jwt_exp = now + 24 * 60 * 60\<rparr>"
    by (simp add: generateToken_def jwt_sign_def)
  show "jwt_decode (session_token secret now s) =
     Some \<lparr>jwt_claims = claims_object (ses_userId s) (ses_username s) None,
           jwt_iat = now, jwt_exp = now + 60 * 60\<rparr>"
    by (simp add: session_token_def jwt_sign_def)
  show "claims_object (ses_userId s) (ses_username s) None ''role'' = None"
    by simp
next
  fix req' profile tok
  assume "login compare secret now db req body = (req', Login_ok profile tok)"
  then obtain u where u: "profile = without_password_hash u" "tok = generateToken secret now u"
    using login_ok by blast
  show "\<exists>p. jwt_decode tok = Some p \<and> jwt_exp p = jwt_iat p + 24 * 60 * 60 \<and>
             jwt_claims p ''userId'' = profile ''id'' \<and>
             jwt_claims p ''username'' = profile ''username'' \<and>
             jwt_claims p ''role'' = profile ''role''"
    using u by (simp add: generateToken_def jwt_sign_def without_password_hash_def)
next
  assume "authorization req = None \<and> session req = Some s \<and> truthy (ses_userId s)"
  then show "authenticateToken secret now db req =
        (case select_user_by_id db (ses_userId s) of
           None \<Rightarrow> Rejected 401 ''Invalid token. User not found.''
         | Some u \<Rightarrow> Next (req\<lparr>user := Some u, userId := u ''id''\<rparr>))"
    by (intro authenticateToken_session) simp_all
qed

theorem session_token_has_no_role_claim:
  "ses_role example_session = Some (JStr ''admin'') \<and>
   token_claim (session_token ''key'' 1000 example_session) ''userId'' = Some (JNum 1) \<and>
   token_claim (session_token ''key'' 1000 example_session) ''role'' = None"
  by (simp add: example_session_def session_token_def jwt_sign_def)

theorem issued_tokens_claims_and_expiry_witness:
  "authenticateToken ''key'' 1000 example_db (example_request None (Some example_session)) =
     Next (example_request None (Some example_session)
             \<lparr>user := Some example_admin, userId := Some (JNum 1)\<rparr>) \<and>
   map_option jwt_exp (jwt_decode (session_token ''key'' 1000 example_session)) = Some 4600 \<and>
   map_option jwt_exp (jwt_decode (generateToken ''key'' 1000 example_admin)) = Some 87400"
proof -
  have h: "authorization (example_request None (Some example_session)) = None \<and>
      session (example_request None (Some example_session)) = Some example_session \<and>
      truthy (ses_userId example_session)"
    by (simp add: example_request_def example_session_def truthy_def)
  have sel: "select_user_by_id example_db (ses_userId example_session) = Some example_admin"
    by (simp add: select_user_by_id_def example_db_def example_session_def example_admin_def
        example_admin_row_def)
  have i: "example_admin ''id'' = Some (JNum 1)"
    by (simp add: example_admin_def example_admin_row_def select_columns_def user_columns_def)
  note t = issued_tokens_claims_and_expiry [of "''key''" 1000 example_admin example_compare
      example_db "example_request None (Some example_session)" _ example_session]
  have c1: "authenticateToken ''key'' 1000 example_db (example_request None (Some example_session)) =
      (case select_user_by_id example_db (ses_userId example_session) of
           None \<Rightarrow> Rejected 401 ''Invalid token. User not found.''
         | Some u \<Rightarrow> Next (example_request None (Some example_session)\<lparr>user := Some u, userId := u ''id''\<rparr>))"
    using t h by blast
  have c2: "jwt_decode (session_token ''key'' 1000 example_session) =
     Some \<lparr>jwt_claims = claims_object (ses_userId example_session) (ses_username example_session) None,
           jwt_iat = 1000, jwt_exp = 1000 + 60 * 60\<rparr>"
    using t by blast
  have c3: "jwt_decode (generateToken ''key'' 1000 example_admin) =
     Some \<lparr>jwt_claims = claims_object (example_admin ''id'') (example_admin ''username'') (example_admin ''role''),
           jwt_iat = 1000, jwt_exp = 1000 + 24 * 60 * 60\<rparr>"
    using t by blast
  show ?thesis
    by (simp add: c1 c2 c3 sel i)
qed

section \<open>The password hash\<close>

text \<open>
  Claim C9. The password hash is not sent out: the user object of a successful login
  response and the claims of its token, the object of the profile response, and the user
  object the authentication middleware attaches to the request have no
  \<^verbatim>\<open>password_hash\<close> property.
\<close>

theorem password_hash_not_exposed:
  "(\<forall>req' profile tok.
      login compare secret now db req body = (req', Login_ok profile tok) \<longrightarrow>
        profile ''password_hash'' = None \<and>
        (\<forall>p. jwt_decode tok = Some p \<longrightarrow> jwt_claims p ''password_hash'' = None)) \<and>
   (\<forall>profile. getProfile req = Profile_ok profile \<longrightarrow> profile ''password_hash'' = None) \<and>
   (\<forall>req'. authenticateToken secret now db req = Next req' \<longrightarrow>
      (\<exists>u. user req' = Some u \<and> u ''password_hash'' = None))"
proof (intro conjI allI impI)
  fix req' profile tok
  assume l: "login compare secret now db req body = (req', Login_ok profile tok)"
  then obtain u where u: "profile = without_password_hash u" "tok = generateToken secret now u"
    using login_ok by blast
  show "profile ''password_hash'' = None"
    using u by (simp add: without_password_hash_def)
  fix p assume "jwt_decode tok = Some p"
  then show "jwt_claims p ''password_hash'' = None"
    using u by (auto simp: generateToken_def jwt_sign_def)
next
  fix profile assume "getProfile req = Profile_ok profile"
  then show "profile ''password_hash'' = None"
    by (auto simp: getProfile_def without_password_hash_def split: option.splits)
next
  fix req' assume a: "authenticateToken secret now db req = Next req'"
  have sel: "u ''password_hash'' = None" if "select_user_by_id db uid = Some u" for uid u
    using that by (auto simp: select_user_by_id_def select_columns_def)
  show "\<exists>u. user req' = Some u \<and> u ''password_hash'' = None"
    using a sel
    by (auto simp: authenticateToken_def Let_def
        split: option.splits sum.splits jwt_error.splits if_splits)
qed

theorem password_hash_not_exposed_witness:
  "user_columns example_admin_row ''password_hash'' = Some (JStr ''nimda'') \<and>
   (\<exists>req' profile tok.
      login example_compare ''key'' 1000 example_db
        (example_request None (Some \<lparr>ses_userId = None, ses_username = None, ses_role = None\<rparr>))
        example_login = (req', Login_ok profile tok) \<and>
      profile ''username'' = Some (JStr ''admin'') \<and> profile ''password_hash'' = None) \<and>
   (\<exists>req'. authenticateToken ''key'' 1000 example_db
        (example_request (Some (Bearer (generateToken ''key'' 1000 (user_columns example_admin_row)))) None)
        = Next req' \<and>
      (\<exists>u. user req' = Some u \<and> u ''username'' = Some (JStr ''admin'') \<and>
           u ''password_hash'' = None))"
proof -
  define req where
    "req = example_request None (Some \<lparr>ses_userId = None, ses_username = None, ses_role = None\<rparr>)"
  define req2 where
    "req2 = example_request (Some (Bearer (generateToken ''key'' 1000 (user_columns example_admin_row)))) None"
  have h: "user_columns example_admin_row ''password_hash'' = Some (JStr ''nimda'')"
    by (simp add: user_columns_def example_admin_row_def)
  have l: "login example_compare ''key'' 1000 example_db req example_login =
      (req\<lparr>session := Some \<lparr>ses_userId = Some (JNum 1), ses_username = Some (JStr ''admin''),
                               ses_role = Some (JStr ''admin'')\<rparr>\<rparr>,
       Login_ok (without_password_hash (user_columns example_admin_row))
         (generateToken ''key'' 1000 (user_columns example_admin_row)))"
    by (simp add: login_def example_login_def truthy_str_def select_user_by_login_def example_db_def
        example_compare_def req_def example_request_def user_columns_def example_admin_row_def)
  have n: "without_password_hash (user_columns example_admin_row) ''username'' = Some (JStr ''admin'')"
    by (simp add: without_password_hash_def user_columns_def example_admin_row_def)
  have a: "authenticateToken ''key'' 1000 example_db req2 =
      Next (req2\<lparr>user := Some example_admin, userId := Some (JNum 1)\<rparr>)"
    by (simp add: authenticateToken_def req2_def example_request_def token_truthy_def
        generateToken_def jwt_sign_def jwt_verify_def select_user_by_id_def example_db_def
        example_admin_def example_admin_row_def user_columns_def select_columns_def)
  have un: "example_admin ''username'' = Some (JStr ''admin'')"
    by (simp add: example_admin_def example_admin_row_def select_columns_def user_columns_def)
  note t = password_hash_not_exposed [of example_compare "''key''" 1000 example_db req example_login]
  note t2 = password_hash_not_exposed [of _ "''key''" 1000 example_db req2]
  have c1: "without_password_hash (user_columns example_admin_row) ''password_hash'' = None"
    using t l by blast
  have c2: "\<exists>u. user (req2\<lparr>user := Some example_admin, userId := Some (JNum 1)\<rparr>) = Some u \<and>
      u ''password_hash'' = None"
    using t2 a by blast
  then have c3: "example_admin ''password_hash'' = None" by simp
  show ?thesis
    unfolding req_def [symmetric] req2_def [symmetric]
    using h l n c1 a un c3 by simp
qed

end
